theory Spec2Isabelle
  imports Complex_Main "HOL-Library.Log_Nat"
begin

section \<open>Python values, exceptions and the built-ins that sensor.py calls\<close>

text \<open>
  The device status is a \<^verbatim>\<open>dict[str, Any]\<close> decoded from the appliance's
  messages. Its entries are modelled as the scalars \<^verbatim>\<open>None\<close>, \<^verbatim>\<open>bool\<close>,
  \<^verbatim>\<open>int\<close> (unbounded) and \<^verbatim>\<open>str\<close>; sensor.py annotates the filter
  entries it reads (\<^verbatim>\<open>_value\<close>, \<^verbatim>\<open>_total\<close>) as \<^verbatim>\<open>int\<close>, so a
  float entry of the snapshot is outside the model. Strings are ASCII byte lists.
\<close>

datatype pyval = PNone | PBool bool | PInt int | PStr string

datatype exn =
    KeyError string
  | TypeError
  | ZeroDivisionError
  | OverflowError
  | ValueError
  | PlatformNotReady

type_synonym DeviceStatus = "string \<rightharpoonup> pyval"

text \<open>\<^verbatim>\<open>d[k]\<close>, \<^verbatim>\<open>d.get(k)\<close> and \<^verbatim>\<open>bool(v)\<close>.\<close>

definition getitem :: "DeviceStatus \<Rightarrow> string \<Rightarrow> exn + pyval" where
  "getitem d k = (case d k of None \<Rightarrow> Inl (KeyError k) | Some v \<Rightarrow> Inr v)"

definition dict_get :: "DeviceStatus \<Rightarrow> string \<Rightarrow> pyval" where
  "dict_get d k = (case d k of None \<Rightarrow> PNone | Some v \<Rightarrow> v)"

fun truthy :: "pyval \<Rightarrow> bool" where
  "truthy PNone = False"
| "truthy (PBool b) = b"
| "truthy (PInt i) = (i \<noteq> 0)"
| "truthy (PStr s) = (s \<noteq> [])"

subsection \<open>Strings\<close>

definition digit_char :: "nat \<Rightarrow> char" where
  "digit_char n = ''0123456789'' ! (n mod 10)"

fun str_nat :: "nat \<Rightarrow> string" where
  "str_nat n = (if n < 10 then [digit_char n] else str_nat (n div 10) @ [digit_char n])"

declare str_nat.simps [simp del]

definition str_int :: "int \<Rightarrow> string" where
  "str_int i = (if i < 0 then CHR ''-'' # str_nat (nat (- i)) else str_nat (nat i))"

text \<open>The text of \<^verbatim>\<open>str(v)\<close>.\<close>

fun py_str :: "pyval \<Rightarrow> string" where
  "py_str PNone = ''None''"
| "py_str (PBool b) = (if b then ''True'' else ''False'')"
| "py_str (PInt i) = str_int i"
| "py_str (PStr s) = s"

text \<open>
  An f-string field \<^verbatim>\<open>{v}\<close> inserts \<^verbatim>\<open>format(v, "")\<close>, which is \<^verbatim>\<open>str(v)\<close>.
  Converting an \<^verbatim>\<open>int\<close> to decimal text raises \<^verbatim>\<open>ValueError\<close> when the text has
  more digits (the sign not counted) than \<^verbatim>\<open>sys.get_int_max_str_digits()\<close>, which is
  4300 unless the interpreter was configured otherwise (CPython 3.11 and later). The
  other values always have a text.
\<close>

definition int_max_str_digits :: nat where
  "int_max_str_digits = 4300"

definition py_format :: "pyval \<Rightarrow> exn + string" where
  "py_format v =
     (case v of
        PInt i \<Rightarrow>
          if int_max_str_digits < length (str_nat (nat \<bar>i\<bar>)) then Inl ValueError
          else Inr (py_str v)
      | _ \<Rightarrow> Inr (py_str v))"

definition ascii_uppercase :: string where
  "ascii_uppercase = ''ABCDEFGHIJKLMNOPQRSTUVWXYZ''"

definition ascii_lowercase :: string where
  "ascii_lowercase = ''abcdefghijklmnopqrstuvwxyz''"

definition is_upper :: "char \<Rightarrow> bool" where
  "is_upper c = (c \<in> set ascii_uppercase)"

definition is_lower :: "char \<Rightarrow> bool" where
  "is_lower c = (c \<in> set ascii_lowercase)"

definition to_lower :: "char \<Rightarrow> char" where
  "to_lower c =
     (case map_of (zip ascii_uppercase ascii_lowercase) c of None \<Rightarrow> c | Some l \<Rightarrow> l)"

definition to_upper :: "char \<Rightarrow> char" where
  "to_upper c =
     (case map_of (zip ascii_lowercase ascii_uppercase) c of None \<Rightarrow> c | Some u \<Rightarrow> u)"

text \<open>\<^verbatim>\<open>s.lower()\<close> and \<^verbatim>\<open>s.replace('_', ' ')\<close>.\<close>

definition lower :: "string \<Rightarrow> string" where
  "lower s = map to_lower s"

definition replace_underscore :: "string \<Rightarrow> string" where
  "replace_underscore s = map (\<lambda>c. if c = CHR ''_'' then CHR '' '' else c) s"

text \<open>
  \<^verbatim>\<open>s.title()\<close>: a cased character is upper-cased when the character before it is not
  cased (or there is none) and lower-cased otherwise; the flag is whether the previous
  character was cased.
\<close>

fun title_from :: "bool \<Rightarrow> string \<Rightarrow> string" where
  "title_from prev [] = []"
| "title_from prev (c # cs) =
     (if is_lower c then (if prev then c else to_upper c) # title_from True cs
      else if is_upper c then (if prev then to_lower c else c) # title_from True cs
      else c # title_from False cs)"

definition title :: "string \<Rightarrow> string" where
  "title s = title_from False s"

subsection \<open>datetime.timedelta\<close>

record timedelta =
  days :: int
  seconds :: int
  microseconds :: int

text \<open>
  \<^verbatim>\<open>timedelta(hours=v)\<close>: an int (or bool) number of hours is turned into seconds and
  normalised with \<^verbatim>\<open>divmod(seconds, 24*3600)\<close>; more than 999999999 days in
  magnitude is an OverflowError; any other type of the snapshot is a TypeError.
\<close>

definition timedelta_of_hours :: "int \<Rightarrow> exn + timedelta" where
  "timedelta_of_hours h =
     (let secs = h * 3600;
          d = secs div (24 * 3600);
          s = secs mod (24 * 3600)
      in if \<bar>d\<bar> > 999999999 then Inl OverflowError
         else Inr \<lparr>days = d, seconds = s, microseconds = 0\<rparr>)"

fun timedelta_hours :: "pyval \<Rightarrow> exn + timedelta" where
  "timedelta_hours (PInt h) = timedelta_of_hours h"
| "timedelta_hours (PBool b) = timedelta_of_hours (if b then 1 else 0)"
| "timedelta_hours PNone = Inl TypeError"
| "timedelta_hours (PStr s) = Inl TypeError"

text \<open>\<^verbatim>\<open>"%02d"\<close> and \<^verbatim>\<open>"%06d"\<close> of a non-negative number: zero padding on the left.\<close>

definition zero_pad :: "nat \<Rightarrow> string \<Rightarrow> string" where
  "zero_pad w s = replicate (w - length s) (CHR ''0'') @ s"

text \<open>
  \<^verbatim>\<open>timedelta.__str__\<close>:
  \<^verbatim>\<open>
    mm, ss = divmod(self._seconds, 60)
    hh, mm = divmod(mm, 60)
    s = "%d:%02d:%02d" % (hh, mm, ss)
    if self._days:
        def plural(n): return n, abs(n) != 1 and "s" or ""
        s = ("%d day%s, " % plural(self._days)) + s
    if self._microseconds:
        s = s + ".%06d" % self._microseconds
    return s
  \<close>
\<close>

definition timedelta_str :: "timedelta \<Rightarrow> string" where
  "timedelta_str t =
     (let mm0 = seconds t div 60; ss = seconds t mod 60;
          hh = mm0 div 60; mm = mm0 mod 60;
          s = str_int hh @ '':'' @ zero_pad 2 (str_int mm) @ '':'' @ zero_pad 2 (str_int ss);
          s1 = (if days t \<noteq> 0
                then str_int (days t) @ '' day'' @ (if \<bar>days t\<bar> \<noteq> 1 then ''s'' else '''')
                     @ '', '' @ s
                else s)
      in if microseconds t \<noteq> 0 then s1 @ ''.'' @ zero_pad 6 (str_int (microseconds t))
         else s1)"

subsection \<open>float\<close>

text \<open>
  A Python float is an IEEE 754 binary64 value: a finite double is a sign (True for
  negative) and the exact rational magnitude, so both zeros exist; the others are the two
  infinities and NaN. Every operation computes the exact rational result and rounds it
  to the nearest double, ties to even.
\<close>

datatype double = Finite bool rat | Infinite bool | NaN

definition pow2 :: "int \<Rightarrow> rat" where
  "pow2 e = (if 0 \<le> e then 2 ^ nat e else 1 / 2 ^ nat (- e))"

definition round_half_even :: "rat \<Rightarrow> int" where
  "round_half_even q =
     (let f = \<lfloor>q\<rfloor>; d = q - of_int f
      in if d < 1 / 2 then f else if 1 / 2 < d then f + 1
         else if even f then f else f + 1)"

text \<open>The exponent \<open>e\<close> with \<open>2^e \<le> q < 2^(e+1)\<close>, for \<open>q > 0\<close>.\<close>

definition floor_log2 :: "rat \<Rightarrow> int" where
  "floor_log2 q =
     (if 1 \<le> q then bitlen \<lfloor>q\<rfloor> - 1 else - bitlen (\<lceil>1 / q\<rceil> - 1))"

text \<open>
  Rounding a magnitude to binary64: 53 significant bits, the exponent of the least
  significant bit never below \<open>-1074\<close> (subnormals), and overflow to infinity from
  \<open>2^1024\<close> on.
\<close>

definition to_double :: "bool \<Rightarrow> rat \<Rightarrow> double" where
  "to_double s q =
     (if q = 0 then Finite s 0
      else let e = max (floor_log2 q) (- 1022);
               ulp = pow2 (e - 52);
               r = of_int (round_half_even (q / ulp)) * ulp
           in if pow2 1024 \<le> r then Infinite s else Finite s r)"

text \<open>
  The conversion of an int operand to float (\<^verbatim>\<open>PyLong_AsDouble\<close>): correctly
  rounded, and an OverflowError when the int is too large for a double.
\<close>

definition float_of_int :: "int \<Rightarrow> exn + double" where
  "float_of_int i =
     (case to_double (i < 0) (of_int \<bar>i\<bar>) of
        Infinite s \<Rightarrow> Inl OverflowError
      | x \<Rightarrow> Inr x)"

text \<open>
  The right operand of \<^verbatim>\<open>float * x\<close> and \<^verbatim>\<open>float / x\<close>: an int or a bool is
  converted, None and str make the operation a TypeError.
\<close>

fun float_operand :: "pyval \<Rightarrow> exn + double" where
  "float_operand (PInt i) = float_of_int i"
| "float_operand (PBool b) = float_of_int (if b then 1 else 0)"
| "float_operand PNone = Inl TypeError"
| "float_operand (PStr s) = Inl TypeError"

fun is_zero :: "double \<Rightarrow> bool" where
  "is_zero (Finite s q) = (q = 0)"
| "is_zero (Infinite s) = False"
| "is_zero NaN = False"

fun double_mul :: "double \<Rightarrow> double \<Rightarrow> double" where
  "double_mul (Finite s x) (Finite t y) = to_double (s \<noteq> t) (x * y)"
| "double_mul (Finite s x) (Infinite t) = (if x = 0 then NaN else Infinite (s \<noteq> t))"
| "double_mul (Infinite s) (Finite t y) = (if y = 0 then NaN else Infinite (s \<noteq> t))"
| "double_mul (Infinite s) (Infinite t) = Infinite (s \<noteq> t)"
| "double_mul NaN y = NaN"
| "double_mul x NaN = NaN"

text \<open>Division by a divisor that is not zero (float.__truediv__ raises before dividing).\<close>

fun double_div :: "double \<Rightarrow> double \<Rightarrow> double" where
  "double_div (Finite s x) (Finite t y) = to_double (s \<noteq> t) (x / y)"
| "double_div (Finite s x) (Infinite t) = Finite (s \<noteq> t) 0"
| "double_div (Infinite s) (Finite t y) = Infinite (s \<noteq> t)"
| "double_div (Infinite s) (Infinite t) = NaN"
| "double_div NaN y = NaN"
| "double_div x NaN = NaN"

definition float_mul :: "double \<Rightarrow> pyval \<Rightarrow> exn + double" where
  "float_mul x v = (case float_operand v of Inl e \<Rightarrow> Inl e | Inr y \<Rightarrow> Inr (double_mul x y))"

definition float_truediv :: "double \<Rightarrow> pyval \<Rightarrow> exn + double" where
  "float_truediv x v =
     (case float_operand v of
        Inl e \<Rightarrow> Inl e
      | Inr y \<Rightarrow> if is_zero y then Inl ZeroDivisionError else Inr (double_div x y))"

text \<open>
  \<^verbatim>\<open>round(x, ndigits)\<close> for a float and \<open>0 \<le> ndigits\<close>: infinities and NaN round to
  themselves; past 323 digits the float is returned as it is; otherwise the exact value
  is rounded half-even to \<open>ndigits\<close> decimals and that decimal is converted back to the
  nearest double (an OverflowError if it is too large to represent).
\<close>

fun float_round :: "double \<Rightarrow> nat \<Rightarrow> exn + double" where
  "float_round (Finite s q) ndigits =
     (if 323 < ndigits then Inr (Finite s q)
      else case to_double s (of_int (round_half_even (q * 10 ^ ndigits)) / 10 ^ ndigits) of
             Infinite t \<Rightarrow> Inl OverflowError
           | y \<Rightarrow> Inr y)"
| "float_round (Infinite s) ndigits = Inr (Infinite s)"
| "float_round NaN ndigits = Inr NaN"

declare float_round.simps [simp del]

section \<open>The declarations sensor.py imports\<close>

text \<open>
  \<^verbatim>\<open>StateType\<close>, what a sensor's \<^verbatim>\<open>state\<close> returns: a scalar as the snapshot
  holds them, or a computed float.
\<close>

datatype StateType = StateVal pyval | StateFloat double

text \<open>
  const.py is a separate module of the package, so its constants and tables are
  parameters of the model, collected in one record. A sensor description is the dict sensor.py reads with
  \<^verbatim>\<open>description[ATTR_LABEL]\<close> and \<^verbatim>\<open>description.get(...)\<close> (an absent key is
  \<open>None\<close>); a filter description has the two keys \<^verbatim>\<open>ATTR_PREFIX\<close> and
  \<^verbatim>\<open>ATTR_POSTFIX\<close>. The tables \<^verbatim>\<open>SENSOR_TYPES\<close> and \<^verbatim>\<open>FILTER_TYPES\<close> are dicts:
  association lists in insertion order, the order a \<^verbatim>\<open>for\<close> loop visits them in.
\<close>

record SensorDescription =
  attr_device_class :: "string option"
  attr_icon :: "string option"
  attr_label :: string
  attr_state_class :: "string option"
  attr_unit :: "string option"
  attr_value :: "(pyval \<Rightarrow> DeviceStatus \<Rightarrow> exn + StateType) option"

record FilterDescription =
  attr_prefix :: string
  attr_postfix :: string

record Const =
  PHILIPS_DEVICE_ID :: string
  PHILIPS_FILTER_STATUS :: string
  PHILIPS_FILTER_TOTAL :: string
  PHILIPS_FILTER_TYPE :: string
  ATTR_TYPE :: string
  ATTR_RAW :: string
  ATTR_TOTAL :: string
  ATTR_TIME_REMAINING :: string
  SENSOR_TYPES :: "(string \<times> SensorDescription) list"
  FILTER_TYPES :: "(string \<times> FilterDescription) list"

text \<open>\<^verbatim>\<open>homeassistant.const.PERCENTAGE\<close>.\<close>

definition PERCENTAGE :: string where
  "PERCENTAGE = ''%''"

text \<open>\<^verbatim>\<open>TABLE[kind]\<close> on one of the two tables.\<close>

definition table_getitem :: "(string \<times> 'a) list \<Rightarrow> string \<Rightarrow> exn + 'a" where
  "table_getitem table kind =
     (case map_of table kind of None \<Rightarrow> Inl (KeyError kind) | Some d \<Rightarrow> Inr d)"

text \<open>\<^verbatim>\<open>k in d\<close>.\<close>

definition contains :: "DeviceStatus \<Rightarrow> string \<Rightarrow> bool" where
  "contains d k = (d k \<noteq> None)"

text \<open>
  The coordinator is the shared object every entity keeps a reference to; the poller
  replaces its \<^verbatim>\<open>status\<close> out of band. An entity method therefore takes the
  coordinator as it is at the moment of the call.
\<close>

record Coordinator =
  status :: DeviceStatus

text \<open>
  Modelled from the spec: \<^verbatim>\<open>PhilipsEntity._device_status\<close> (the base class lives in
  the package's \<^verbatim>\<open>__init__.py\<close>, outside sensor.py). The spec's data model:
  consumers hold a reference to the snapshot and re-read it on every property access, with
  no local caching.
\<close>

definition device_status :: "Coordinator \<Rightarrow> DeviceStatus" where
  "device_status coordinator = status coordinator"

text \<open>\<^verbatim>\<open>_LOGGER.error(msg, e)\<close>: the records the module logs, in order.\<close>

datatype log_record = LogError string exn

section \<open>PhilipsSensor\<close>

record PhilipsSensor =
  s_model :: string
  s_description :: SensorDescription
  s_attr_device_class :: "string option"
  s_attr_icon :: "string option"
  s_attr_name :: string
  s_attr_state_class :: "string option"
  s_attr_unit_of_measurement :: "string option"
  s_attr_unique_id :: string
  s_attrs :: "string \<rightharpoonup> pyval"
  s_kind :: string

text \<open>
  \<^verbatim>\<open>PhilipsSensor.__init__\<close>. The result is the log written and either the exception
  raised or the entity. Whatever the \<^verbatim>\<open>try\<close> block raises (the lookup of the device
  id, or the formatting of the f-string field \<^verbatim>\<open>{device_id}\<close>) is logged and replaced
  by PlatformNotReady.
\<close>

definition PhilipsSensor_init ::
  "Const \<Rightarrow> Coordinator \<Rightarrow> string \<Rightarrow> string \<Rightarrow> string \<Rightarrow> log_record list \<times> (exn + PhilipsSensor)"
where
  "PhilipsSensor_init c coordinator name model kind =
     (case table_getitem (SENSOR_TYPES c) kind of
        Inl e \<Rightarrow> ([], Inl e)
      | Inr description \<Rightarrow>
          (case getitem (device_status coordinator) (PHILIPS_DEVICE_ID c) of
             Inl e \<Rightarrow> ([LogError ''Failed retrieving unique_id: %s'' e], Inl PlatformNotReady)
           | Inr device_id \<Rightarrow>
               (case py_format device_id of
                  Inl e \<Rightarrow>
                    ([LogError ''Failed retrieving unique_id: %s'' e], Inl PlatformNotReady)
                | Inr device_id_text \<Rightarrow>
                    ([], Inr \<lparr>s_model = model,
                              s_description = description,
                              s_attr_device_class = attr_device_class description,
                              s_attr_icon = attr_icon description,
                              s_attr_name =
                                name @ '' '' @
                                title (replace_underscore (attr_label description)),
                              s_attr_state_class = attr_state_class description,
                              s_attr_unit_of_measurement = attr_unit description,
                              s_attr_unique_id =
                                model @ ''-'' @ device_id_text @ ''-'' @ lower kind,
                              s_attrs = Map.empty,
                              s_kind = kind\<rparr>))))"

text \<open>\<^verbatim>\<open>PhilipsSensor.state\<close>; a conversion function, when the description has one, is truthy.\<close>

definition PhilipsSensor_state :: "Coordinator \<Rightarrow> PhilipsSensor \<Rightarrow> exn + StateType" where
  "PhilipsSensor_state coordinator self =
     (case getitem (device_status coordinator) (s_kind self) of
        Inl e \<Rightarrow> Inl e
      | Inr v \<Rightarrow>
          (case attr_value (s_description self) of
             None \<Rightarrow> Inr (StateVal v)
           | Some convert \<Rightarrow> convert v (device_status coordinator)))"

section \<open>PhilipsFilterSensor\<close>

record PhilipsFilterSensor =
  f_model :: string
  f_value_key :: string
  f_total_key :: string
  f_type_key :: string
  f_attr_unit_of_measurement :: "string option"
  f_attr_name :: string
  f_attr_unique_id :: string
  f_attrs :: "string \<rightharpoonup> pyval"

text \<open>\<^verbatim>\<open>"".join([prefix, MIDDLE, postfix])\<close>.\<close>

definition join_key :: "FilterDescription \<Rightarrow> string \<Rightarrow> string" where
  "join_key description middle = attr_prefix description @ middle @ attr_postfix description"

definition PhilipsFilterSensor_is_supported :: "Const \<Rightarrow> DeviceStatus \<Rightarrow> string \<Rightarrow> exn + bool" where
  "PhilipsFilterSensor_is_supported c dstatus kind =
     (case table_getitem (FILTER_TYPES c) kind of
        Inl e \<Rightarrow> Inl e
      | Inr description \<Rightarrow>
          Inr (contains dstatus (join_key description (PHILIPS_FILTER_STATUS c))))"

definition PhilipsFilterSensor_has_total :: "Coordinator \<Rightarrow> PhilipsFilterSensor \<Rightarrow> bool" where
  "PhilipsFilterSensor_has_total coordinator self =
     contains (device_status coordinator) (f_total_key self)"

definition PhilipsFilterSensor_value :: "Coordinator \<Rightarrow> PhilipsFilterSensor \<Rightarrow> exn + pyval" where
  "PhilipsFilterSensor_value coordinator self =
     getitem (device_status coordinator) (f_value_key self)"

definition PhilipsFilterSensor_total :: "Coordinator \<Rightarrow> PhilipsFilterSensor \<Rightarrow> exn + pyval" where
  "PhilipsFilterSensor_total coordinator self =
     getitem (device_status coordinator) (f_total_key self)"

text \<open>
  \<^verbatim>\<open>round(100.0 * self._value / self._total, 2)\<close>, in Python's order of evaluation:
  the value, the product, the total, the quotient, the rounding.
\<close>

definition PhilipsFilterSensor_percentage :: "Coordinator \<Rightarrow> PhilipsFilterSensor \<Rightarrow> exn + double" where
  "PhilipsFilterSensor_percentage coordinator self =
     (case PhilipsFilterSensor_value coordinator self of
        Inl e \<Rightarrow> Inl e
      | Inr v \<Rightarrow>
          (case float_mul (Finite False 100) v of
             Inl e \<Rightarrow> Inl e
           | Inr x \<Rightarrow>
               (case PhilipsFilterSensor_total coordinator self of
                  Inl e \<Rightarrow> Inl e
                | Inr t \<Rightarrow>
                    (case float_truediv x t of
                       Inl e \<Rightarrow> Inl e
                     | Inr y \<Rightarrow> float_round y 2))))"

text \<open>\<^verbatim>\<open>str(timedelta(hours=self._value))\<close>.\<close>

definition PhilipsFilterSensor_time_remaining :: "Coordinator \<Rightarrow> PhilipsFilterSensor \<Rightarrow> exn + string" where
  "PhilipsFilterSensor_time_remaining coordinator self =
     (case PhilipsFilterSensor_value coordinator self of
        Inl e \<Rightarrow> Inl e
      | Inr v \<Rightarrow>
          (case timedelta_hours v of
             Inl e \<Rightarrow> Inl e
           | Inr t \<Rightarrow> Inr (timedelta_str t)))"

definition PhilipsFilterSensor_state :: "Coordinator \<Rightarrow> PhilipsFilterSensor \<Rightarrow> exn + StateType" where
  "PhilipsFilterSensor_state coordinator self =
     (if PhilipsFilterSensor_has_total coordinator self
      then (case PhilipsFilterSensor_percentage coordinator self of
              Inl e \<Rightarrow> Inl e
            | Inr p \<Rightarrow> Inr (StateFloat p))
      else (case PhilipsFilterSensor_time_remaining coordinator self of
              Inl e \<Rightarrow> Inl e
            | Inr s \<Rightarrow> Inr (StateVal (PStr s))))"

text \<open>
  \<^verbatim>\<open>PhilipsFilterSensor.__init__\<close>. The unit of measurement is assigned only when the
  total key is in the snapshot; otherwise the attribute keeps the entity's default,
  \<open>None\<close>. \<^verbatim>\<open>_has_total\<close> needs only the total key of the entity under construction.
\<close>

definition PhilipsFilterSensor_init ::
  "Const \<Rightarrow> Coordinator \<Rightarrow> string \<Rightarrow> string \<Rightarrow> string \<Rightarrow> log_record list \<times> (exn + PhilipsFilterSensor)"
where
  "PhilipsFilterSensor_init c coordinator name model kind =
     (case table_getitem (FILTER_TYPES c) kind of
        Inl e \<Rightarrow> ([], Inl e)
      | Inr description \<Rightarrow>
          (let self0 = \<lparr>f_model = model,
                        f_value_key = join_key description (PHILIPS_FILTER_STATUS c),
                        f_total_key = join_key description (PHILIPS_FILTER_TOTAL c),
                        f_type_key = join_key description (PHILIPS_FILTER_TYPE c),
                        f_attr_unit_of_measurement = None,
                        f_attr_name = [],
                        f_attr_unique_id = [],
                        f_attrs = Map.empty\<rparr>;
               self1 = (if PhilipsFilterSensor_has_total coordinator self0
                        then self0\<lparr>f_attr_unit_of_measurement := Some PERCENTAGE\<rparr>
                        else self0);
               self2 = self1\<lparr>f_attr_name := name @ '' '' @ title (replace_underscore kind)\<rparr>
           in case getitem (device_status coordinator) (PHILIPS_DEVICE_ID c) of
                Inl e \<Rightarrow> ([LogError ''Failed retrieving unique_id: %s'' e], Inl PlatformNotReady)
              | Inr device_id \<Rightarrow>
                  (case py_format device_id of
                     Inl e \<Rightarrow>
                       ([LogError ''Failed retrieving unique_id: %s'' e], Inl PlatformNotReady)
                   | Inr device_id_text \<Rightarrow>
                       ([], Inr (self2\<lparr>f_attr_unique_id :=
                                         model @ ''-'' @ device_id_text @ ''-'' @ kind,
                                       f_attrs := Map.empty\<rparr>)))))"

text \<open>
  \<^verbatim>\<open>PhilipsFilterSensor.extra_state_attributes\<close> assigns into the dict the entity keeps
  in \<^verbatim>\<open>self._attrs\<close> and returns that dict, so the result comes with the updated
  entity; an assignment made before a later line raises stays made.
\<close>

definition attrs_set :: "PhilipsFilterSensor \<Rightarrow> string \<Rightarrow> pyval \<Rightarrow> PhilipsFilterSensor" where
  "attrs_set self k v = self\<lparr>f_attrs := (f_attrs self)(k \<mapsto> v)\<rparr>"

definition PhilipsFilterSensor_extra_state_attributes ::
  "Const \<Rightarrow> Coordinator \<Rightarrow> PhilipsFilterSensor \<Rightarrow> (exn + (string \<rightharpoonup> pyval)) \<times> PhilipsFilterSensor"
where
  "PhilipsFilterSensor_extra_state_attributes c coordinator self =
     (case (if contains (device_status coordinator) (f_type_key self)
            then (case getitem (device_status coordinator) (f_type_key self) of
                    Inl e \<Rightarrow> Inl e
                  | Inr ty \<Rightarrow> Inr (attrs_set self (ATTR_TYPE c) ty))
            else Inr self) of
        Inl e \<Rightarrow> (Inl e, self)
      | Inr self1 \<Rightarrow>
          (case PhilipsFilterSensor_value coordinator self1 of
             Inl e \<Rightarrow> (Inl e, self1)
           | Inr v \<Rightarrow>
               (let self2 = attrs_set self1 (ATTR_RAW c) v
                in if PhilipsFilterSensor_has_total coordinator self2
                   then (case PhilipsFilterSensor_total coordinator self2 of
                           Inl e \<Rightarrow> (Inl e, self2)
                         | Inr t \<Rightarrow>
                             (let self3 = attrs_set self2 (ATTR_TOTAL c) t
                              in case PhilipsFilterSensor_time_remaining coordinator self3 of
                                   Inl e \<Rightarrow> (Inl e, self3)
                                 | Inr s \<Rightarrow>
                                     (let self4 = attrs_set self3 (ATTR_TIME_REMAINING c) (PStr s)
                                      in (Inr (f_attrs self4), self4))))
                   else (Inr (f_attrs self2), self2))))"

section \<open>Platform setup\<close>

datatype Entity = Sensor PhilipsSensor | FilterSensor PhilipsFilterSensor

text \<open>
  \<^verbatim>\<open>discovery_info\<close> with its three keys, and \<^verbatim>\<open>hass.data[DOMAIN]\<close>, which maps a
  host to its data; the model keeps the coordinator of that data
  (\<^verbatim>\<open>data[DATA_KEY_COORDINATOR]\<close>).
\<close>

record DiscoveryInfo =
  conf_host :: string
  conf_model :: string
  conf_name :: string

text \<open>
  The first loop of \<^verbatim>\<open>async_setup_platform\<close>: the identifiers still to visit and the
  list \<^verbatim>\<open>sensors\<close> built so far. A constructor that raises ends the setup.
\<close>

fun add_sensors ::
  "Const \<Rightarrow> Coordinator \<Rightarrow> string \<Rightarrow> string \<Rightarrow> string list \<Rightarrow> Entity list
   \<Rightarrow> log_record list \<times> (exn + Entity list)"
where
  "add_sensors c coordinator name model [] sensors = ([], Inr sensors)"
| "add_sensors c coordinator name model (sensor # rest) sensors =
     (if truthy (dict_get (status coordinator) sensor)
      then (case PhilipsSensor_init c coordinator name model sensor of
              (lg, Inl e) \<Rightarrow> (lg, Inl e)
            | (lg, Inr s) \<Rightarrow>
                (case add_sensors c coordinator name model rest (sensors @ [Sensor s]) of
                   (lg', r) \<Rightarrow> (lg @ lg', r)))
      else add_sensors c coordinator name model rest sensors)"

text \<open>The second loop, over the filter types.\<close>

fun add_filters ::
  "Const \<Rightarrow> Coordinator \<Rightarrow> string \<Rightarrow> string \<Rightarrow> string list \<Rightarrow> Entity list
   \<Rightarrow> log_record list \<times> (exn + Entity list)"
where
  "add_filters c coordinator name model [] sensors = ([], Inr sensors)"
| "add_filters c coordinator name model (kind # rest) sensors =
     (case PhilipsFilterSensor_is_supported c (status coordinator) kind of
        Inl e \<Rightarrow> ([], Inl e)
      | Inr True \<Rightarrow>
          (case PhilipsFilterSensor_init c coordinator name model kind of
             (lg, Inl e) \<Rightarrow> (lg, Inl e)
           | (lg, Inr f) \<Rightarrow>
               (case add_filters c coordinator name model rest (sensors @ [FilterSensor f]) of
                  (lg', r) \<Rightarrow> (lg @ lg', r)))
      | Inr False \<Rightarrow> add_filters c coordinator name model rest sensors)"

text \<open>
  \<^verbatim>\<open>async_setup_platform\<close>. The result is the log and either the exception raised or
  what was registered: \<open>None\<close> when \<^verbatim>\<open>async_add_entities\<close> was not called, otherwise
  the list it was called with.
\<close>

definition async_setup_platform ::
  "Const \<Rightarrow> (string \<rightharpoonup> Coordinator) \<Rightarrow> DiscoveryInfo option
   \<Rightarrow> log_record list \<times> (exn + Entity list option)"
where
  "async_setup_platform c hass_data discovery_info =
     (case discovery_info of
        None \<Rightarrow> ([], Inr None)
      | Some info \<Rightarrow>
          (case hass_data (conf_host info) of
             None \<Rightarrow> ([], Inl (KeyError (conf_host info)))
           | Some coordinator \<Rightarrow>
               (case add_sensors c coordinator (conf_name info) (conf_model info)
                       (map fst (SENSOR_TYPES c)) [] of
                  (lg, Inl e) \<Rightarrow> (lg, Inl e)
                | (lg, Inr sensors) \<Rightarrow>
                    (case add_filters c coordinator (conf_name info) (conf_model info)
                            (map fst (FILTER_TYPES c)) sensors of
                       (lg', Inl e) \<Rightarrow> (lg @ lg', Inl e)
                     | (lg', Inr sensors') \<Rightarrow> (lg @ lg', Inr (Some sensors'))))))"

section \<open>An instance of the declarations\<close>

text \<open>
  Concrete tables and snapshots on which the model is run: one sensor with a conversion
  function and one without, two filter types.
\<close>

definition example_convert :: "pyval \<Rightarrow> DeviceStatus \<Rightarrow> exn + StateType" where
  "example_convert v st =
     (case v of PInt i \<Rightarrow> Inr (StateVal (PInt (i * 2))) | _ \<Rightarrow> Inl TypeError)"

definition example_const :: Const where
  "example_const =
     \<lparr>PHILIPS_DEVICE_ID = ''DeviceId'',
      PHILIPS_FILTER_STATUS = ''FilterStatus'',
      PHILIPS_FILTER_TOTAL = ''FilterTotal'',
      PHILIPS_FILTER_TYPE = ''FilterType'',
      ATTR_TYPE = ''type'',
      ATTR_RAW = ''raw'',
      ATTR_TOTAL = ''total'',
      ATTR_TIME_REMAINING = ''time_remaining'',
      SENSOR_TYPES =
        [(''pm25'', \<lparr>attr_device_class = None, attr_icon = Some ''mdi:blur'',
                     attr_label = ''pm25'', attr_state_class = Some ''measurement'',
                     attr_unit = Some ''ug/m3'', attr_value = None\<rparr>),
         (''IAQL'', \<lparr>attr_device_class = None, attr_icon = None,
                     attr_label = ''indoor_allergen_index'', attr_state_class = None,
                     attr_unit = None, attr_value = Some example_convert\<rparr>)],
      FILTER_TYPES =
        [(''pre_filter'', \<lparr>attr_prefix = ''pre'', attr_postfix = ''0''\<rparr>),
         (''HEPA_filter'', \<lparr>attr_prefix = ''hepa'', attr_postfix = ''1''\<rparr>)]\<rparr>"

definition example_status :: "(string \<times> pyval) list \<Rightarrow> Coordinator" where
  "example_status entries = \<lparr>status = map_of entries\<rparr>"

text \<open>
  A snapshot with every key of the pre-filter, and the Filter Sensor that
  \<^verbatim>\<open>PhilipsFilterSensor(coordinator, "Purifier", "AC1234", "pre_filter")\<close> constructs
  from it.
\<close>

definition example_snapshot :: Coordinator where
  "example_snapshot =
     example_status [(''DeviceId'', PStr ''XYZ''), (''pm25'', PInt 7),
                     (''preFilterStatus0'', PInt 48), (''preFilterTotal0'', PInt 96),
                     (''preFilterType0'', PStr ''A3'')]"

definition example_filter :: PhilipsFilterSensor where
  "example_filter =
     \<lparr>f_model = ''AC1234'',
      f_value_key = ''preFilterStatus0'',
      f_total_key = ''preFilterTotal0'',
      f_type_key = ''preFilterType0'',
      f_attr_unit_of_measurement = Some ''%'',
      f_attr_name = ''Purifier Pre Filter'',
      f_attr_unique_id = ''AC1234-XYZ-pre_filter'',
      f_attrs = Map.empty\<rparr>"

text \<open>The same entity after one read of its attributes under that snapshot.\<close>

definition example_filter_read :: PhilipsFilterSensor where
  "example_filter_read =
     example_filter\<lparr>f_attrs :=
       [''type'' \<mapsto> PStr ''A3'', ''raw'' \<mapsto> PInt 48, ''total'' \<mapsto> PInt 96,
        ''time_remaining'' \<mapsto> PStr ''2 days, 0:00:00'']\<rparr>"

text \<open>A discovery context for the host \<^verbatim>\<open>host\<close>.\<close>

definition example_info :: DiscoveryInfo where
  "example_info = \<lparr>conf_host = ''host'', conf_model = ''AC1234'', conf_name = ''Purifier''\<rparr>"

section \<open>The text of an f-string field\<close>

lemma py_format_simps [simp]:
  "py_format PNone = Inr ''None''"
  "py_format (PBool b) = Inr (if b then ''True'' else ''False'')"
  "py_format (PStr s) = Inr s"
  by (simp_all add: py_format_def)

lemma str_nat_length_pos: "0 < length (str_nat n)"
  by (subst str_nat.simps) simp

lemma str_nat_length:
  "0 < k \<Longrightarrow> (length (str_nat n) \<le> k) = (n < 10 ^ k)"
proof (induction n arbitrary: k rule: str_nat.induct)
  case (1 n)
  show ?case
  proof (cases "n < 10")
    case True
    have "(10::nat) ^ 1 \<le> 10 ^ k" using 1(2) by (intro power_increasing) simp_all
    with True have "n < 10 ^ k" by simp
    moreover have "length (str_nat n) = 1" using True by (subst str_nat.simps) simp
    ultimately show ?thesis using 1(2) by simp
  next
    case False
    then have len: "length (str_nat n) = Suc (length (str_nat (n div 10)))"
      by (subst str_nat.simps) simp
    show ?thesis
    proof (cases "k = 1")
      case True
      with False len str_nat_length_pos [of "n div 10"] show ?thesis by simp
    next
      case k: False
      with 1(2) obtain j where j: "k = Suc j" "0 < j" by (cases k) auto
      from 1(1) [OF False j(2)]
      have "(length (str_nat (n div 10)) \<le> j) = (n div 10 < 10 ^ j)" .
      moreover have "(n div 10 < 10 ^ j) = (n < 10 ^ Suc j)"
        by (simp add: div_less_iff_less_mult mult.commute)
      ultimately show ?thesis using len j by simp
    qed
  qed
qed

text \<open>
  An integer has a text exactly when its absolute value is below
  \<open>10 ^ int_max_str_digits\<close>.
\<close>

lemma py_format_int:
  "py_format (PInt i) =
     (if 10 ^ int_max_str_digits \<le> \<bar>i\<bar> then Inl ValueError else Inr (str_int i))"
proof -
  have "0 < int_max_str_digits" by (simp add: int_max_str_digits_def)
  from str_nat_length [OF this, of "nat \<bar>i\<bar>"]
  have "(int_max_str_digits < length (str_nat (nat \<bar>i\<bar>))) =
        (10 ^ int_max_str_digits \<le> nat \<bar>i\<bar>)"
    by (simp add: not_le [symmetric])
  moreover have "((10::nat) ^ int_max_str_digits \<le> nat \<bar>i\<bar>) =
                 ((10::int) ^ int_max_str_digits \<le> \<bar>i\<bar>)"
    by (simp add: le_nat_iff)
  ultimately show ?thesis by (simp add: py_format_def)
qed

lemma py_format_17: "py_format (PInt 17) = Inr ''17''"
  by (simp add: py_format_def int_max_str_digits_def str_int_def str_nat.simps digit_char_def)

section \<open>What a successful construction fixes\<close>

lemma py_format_Inr: "py_format v = Inr t \<Longrightarrow> t = py_str v"
  by (auto simp: py_format_def split: pyval.splits if_splits)

lemma PhilipsSensor_init_Inr:
  assumes "PhilipsSensor_init c coordinator name model kind = (lg, Inr s)"
  obtains description device_id where
    "map_of (SENSOR_TYPES c) kind = Some description"
    "status coordinator (PHILIPS_DEVICE_ID c) = Some device_id"
    "lg = []"
    "s_kind s = kind"
    "s_description s = description"
    "py_format device_id = Inr (py_str device_id)"
    "s_attr_unique_id s = model @ ''-'' @ py_str device_id @ ''-'' @ lower kind"
proof -
  from assms obtain description where d: "map_of (SENSOR_TYPES c) kind = Some description"
    by (cases "map_of (SENSOR_TYPES c) kind")
       (simp_all add: PhilipsSensor_init_def table_getitem_def)
  from assms d obtain device_id where
    dev: "status coordinator (PHILIPS_DEVICE_ID c) = Some device_id"
    by (cases "status coordinator (PHILIPS_DEVICE_ID c)")
       (simp_all add: PhilipsSensor_init_def table_getitem_def getitem_def device_status_def)
  from assms d dev obtain t where t: "py_format device_id = Inr t"
    by (cases "py_format device_id")
       (simp_all add: PhilipsSensor_init_def table_getitem_def getitem_def device_status_def)
  from py_format_Inr [OF t] have fmt: "py_format device_id = Inr (py_str device_id)"
    using t by simp
  from assms have "lg = [] \<and> s_kind s = kind \<and> s_description s = description \<and>
      s_attr_unique_id s = model @ ''-'' @ py_str device_id @ ''-'' @ lower kind"
    using d dev fmt
    by (auto simp: PhilipsSensor_init_def table_getitem_def getitem_def device_status_def)
  with d dev fmt that show ?thesis by blast
qed

lemma PhilipsFilterSensor_init_Inr:
  assumes "PhilipsFilterSensor_init c coordinator name model kind = (lg, Inr f)"
  obtains description device_id where
    "map_of (FILTER_TYPES c) kind = Some description"
    "status coordinator (PHILIPS_DEVICE_ID c) = Some device_id"
    "lg = []"
    "f_value_key f = join_key description (PHILIPS_FILTER_STATUS c)"
    "f_total_key f = join_key description (PHILIPS_FILTER_TOTAL c)"
    "f_type_key f = join_key description (PHILIPS_FILTER_TYPE c)"
    "f_attr_unit_of_measurement f =
       (if contains (status coordinator) (join_key description (PHILIPS_FILTER_TOTAL c))
        then Some PERCENTAGE else None)"
    "py_format device_id = Inr (py_str device_id)"
    "f_attr_unique_id f = model @ ''-'' @ py_str device_id @ ''-'' @ kind"
    "f_attrs f = Map.empty"
proof -
  from assms obtain description where d: "map_of (FILTER_TYPES c) kind = Some description"
    by (cases "map_of (FILTER_TYPES c) kind")
       (simp_all add: PhilipsFilterSensor_init_def table_getitem_def)
  from assms d obtain device_id where
    dev: "status coordinator (PHILIPS_DEVICE_ID c) = Some device_id"
    by (cases "status coordinator (PHILIPS_DEVICE_ID c)")
       (simp_all add: PhilipsFilterSensor_init_def table_getitem_def getitem_def
                      device_status_def Let_def)
  from assms d dev obtain t where t: "py_format device_id = Inr t"
    by (cases "py_format device_id")
       (simp_all add: PhilipsFilterSensor_init_def table_getitem_def getitem_def
                      device_status_def Let_def)
  from py_format_Inr [OF t] have fmt: "py_format device_id = Inr (py_str device_id)"
    using t by simp
  from assms have "lg = [] \<and>
    f_value_key f = join_key description (PHILIPS_FILTER_STATUS c) \<and>
    f_total_key f = join_key description (PHILIPS_FILTER_TOTAL c) \<and>
    f_type_key f = join_key description (PHILIPS_FILTER_TYPE c) \<and>
    f_attr_unit_of_measurement f =
       (if contains (status coordinator) (join_key description (PHILIPS_FILTER_TOTAL c))
        then Some PERCENTAGE else None) \<and>
    f_attr_unique_id f = model @ ''-'' @ py_str device_id @ ''-'' @ kind \<and>
    f_attrs f = Map.empty"
    using d dev fmt
    by (auto simp: PhilipsFilterSensor_init_def table_getitem_def getitem_def device_status_def
                   PhilipsFilterSensor_has_total_def Let_def)
  with d dev fmt that show ?thesis by blast
qed

lemmas example_defs = example_const_def example_status_def example_convert_def

lemmas case_defs = lower_def title_def replace_underscore_def is_lower_def is_upper_def
  to_lower_def to_upper_def ascii_uppercase_def ascii_lowercase_def

section \<open>Simple sensors\<close>

text \<open>
  Claim C8. A Simple Sensor constructed for a declared identifier reads
  \<^verbatim>\<open>snapshot[identifier]\<close> from the coordinator's status as it is at the time of the
  read, whatever the status was at construction (a missing key is a KeyError); with a
  conversion function in the description the result is that function applied to the raw
  value and the whole snapshot, without one it is the raw value.
\<close>

theorem C8_sensor_state_reads_live_snapshot:
  assumes "PhilipsSensor_init c coordinator0 name model kind = (lg, Inr s)"
    and "map_of (SENSOR_TYPES c) kind = Some description"
  shows "PhilipsSensor_state coordinator s =
           (case status coordinator kind of
              None \<Rightarrow> Inl (KeyError kind)
            | Some raw \<Rightarrow>
                (case attr_value description of
                   None \<Rightarrow> Inr (StateVal raw)
                 | Some convert \<Rightarrow> convert raw (status coordinator)))"
  using assms
  by (elim PhilipsSensor_init_Inr)
     (simp add: PhilipsSensor_state_def getitem_def device_status_def split: option.splits)

theorem C8_witness:
  "\<exists>s s'. PhilipsSensor_init example_const (example_status [(''DeviceId'', PStr ''XYZ'')])
          ''Purifier'' ''AC1234'' ''IAQL'' = ([], Inr s)
      \<and> PhilipsSensor_state (example_status [(''IAQL'', PInt 7)]) s = Inr (StateVal (PInt 14))
      \<and> PhilipsSensor_state (example_status [(''IAQL'', PInt 9)]) s = Inr (StateVal (PInt 18))
      \<and> PhilipsSensor_init example_const (example_status [(''DeviceId'', PStr ''XYZ'')])
          ''Purifier'' ''AC1234'' ''pm25'' = ([], Inr s')
      \<and> PhilipsSensor_state (example_status [(''pm25'', PInt 7)]) s' = Inr (StateVal (PInt 7))
      \<and> PhilipsSensor_state (example_status [(''IAQL'', PInt 7)]) s' = Inl (KeyError ''pm25'')"
proof -
  let ?co = "example_status [(''DeviceId'', PStr ''XYZ'')]"
  obtain s where init:
    "PhilipsSensor_init example_const ?co ''Purifier'' ''AC1234'' ''IAQL'' = ([], Inr s)"
    by (simp add: PhilipsSensor_init_def table_getitem_def getitem_def device_status_def
                  example_defs)
  obtain s' where init':
    "PhilipsSensor_init example_const ?co ''Purifier'' ''AC1234'' ''pm25'' = ([], Inr s')"
    by (simp add: PhilipsSensor_init_def table_getitem_def getitem_def device_status_def
                  example_defs)
  have decl: "map_of (SENSOR_TYPES example_const) ''IAQL'' =
      Some \<lparr>attr_device_class = None, attr_icon = None,
            attr_label = ''indoor_allergen_index'', attr_state_class = None,
            attr_unit = None, attr_value = Some example_convert\<rparr>"
    by (simp add: example_const_def)
  have decl': "map_of (SENSOR_TYPES example_const) ''pm25'' =
      Some \<lparr>attr_device_class = None, attr_icon = Some ''mdi:blur'',
            attr_label = ''pm25'', attr_state_class = Some ''measurement'',
            attr_unit = Some ''ug/m3'', attr_value = None\<rparr>"
    by (simp add: example_const_def)
  have "PhilipsSensor_state (example_status [(''IAQL'', PInt 7)]) s = Inr (StateVal (PInt 14))"
       "PhilipsSensor_state (example_status [(''IAQL'', PInt 9)]) s = Inr (StateVal (PInt 18))"
    using C8_sensor_state_reads_live_snapshot [OF init decl]
    by (simp_all add: example_status_def example_convert_def)
  moreover have
    "PhilipsSensor_state (example_status [(''pm25'', PInt 7)]) s' = Inr (StateVal (PInt 7))"
    "PhilipsSensor_state (example_status [(''IAQL'', PInt 7)]) s' = Inl (KeyError ''pm25'')"
    using C8_sensor_state_reads_live_snapshot [OF init' decl']
    by (simp_all add: example_status_def)
  ultimately show ?thesis using init init' by blast
qed

text \<open>
  Claim C9. A successful Simple Sensor construction sets the unique identifier to
  \<^verbatim>\<open>{model}-{device_id}-{kind.lower()}\<close> and a successful Filter Sensor construction
  to \<^verbatim>\<open>{model}-{device_id}-{kind}\<close> (no lower-casing), with \<^verbatim>\<open>device_id\<close> the entry
  of the snapshot under the device-id key, formatted as an f-string formats it.
\<close>

theorem C9_unique_id:
  "(PhilipsSensor_init c coordinator name model kind = (lg, Inr s) \<longrightarrow>
      (\<exists>device_id. status coordinator (PHILIPS_DEVICE_ID c) = Some device_id \<and>
         s_attr_unique_id s = model @ ''-'' @ py_str device_id @ ''-'' @ lower kind)) \<and>
   (PhilipsFilterSensor_init c coordinator name model fkind = (lg', Inr f) \<longrightarrow>
      (\<exists>device_id. status coordinator (PHILIPS_DEVICE_ID c) = Some device_id \<and>
         f_attr_unique_id f = model @ ''-'' @ py_str device_id @ ''-'' @ fkind))"
proof (intro conjI impI)
  assume "PhilipsSensor_init c coordinator name model kind = (lg, Inr s)"
  then show "\<exists>device_id. status coordinator (PHILIPS_DEVICE_ID c) = Some device_id \<and>
         s_attr_unique_id s = model @ ''-'' @ py_str device_id @ ''-'' @ lower kind"
    by (elim PhilipsSensor_init_Inr) blast
next
  assume "PhilipsFilterSensor_init c coordinator name model fkind = (lg', Inr f)"
  then show "\<exists>device_id. status coordinator (PHILIPS_DEVICE_ID c) = Some device_id \<and>
         f_attr_unique_id f = model @ ''-'' @ py_str device_id @ ''-'' @ fkind"
    by (elim PhilipsFilterSensor_init_Inr) blast
qed

theorem C9_witness:
  "\<exists>s1 s2 f.
     PhilipsSensor_init example_const (example_status [(''DeviceId'', PStr ''XYZ'')])
       ''Purifier'' ''AC1234'' ''pm25'' = ([], Inr s1)
     \<and> s_attr_unique_id s1 = ''AC1234-XYZ-pm25''
     \<and> PhilipsSensor_init example_const (example_status [(''DeviceId'', PStr ''XYZ'')])
       ''Purifier'' ''AC1234'' ''IAQL'' = ([], Inr s2)
     \<and> s_attr_unique_id s2 = ''AC1234-XYZ-iaql''
     \<and> PhilipsFilterSensor_init example_const (example_status [(''DeviceId'', PInt 17)])
       ''Purifier'' ''AC1234'' ''HEPA_filter'' = ([], Inr f)
     \<and> f_attr_unique_id f = ''AC1234-17-HEPA_filter''"
proof -
  let ?co = "example_status [(''DeviceId'', PStr ''XYZ'')]"
  let ?co' = "example_status [(''DeviceId'', PInt 17)]"
  obtain s1 where i1:
    "PhilipsSensor_init example_const ?co ''Purifier'' ''AC1234'' ''pm25'' = ([], Inr s1)"
    by (simp add: PhilipsSensor_init_def table_getitem_def getitem_def device_status_def
                  example_defs)
  obtain s2 where i2:
    "PhilipsSensor_init example_const ?co ''Purifier'' ''AC1234'' ''IAQL'' = ([], Inr s2)"
    by (simp add: PhilipsSensor_init_def table_getitem_def getitem_def device_status_def
                  example_defs)
  obtain f where i3:
    "PhilipsFilterSensor_init example_const ?co' ''Purifier'' ''AC1234'' ''HEPA_filter'' = ([], Inr f)"
    by (simp add: PhilipsFilterSensor_init_def table_getitem_def getitem_def device_status_def
                  example_defs Let_def py_format_17)
  have "s_attr_unique_id s1 = ''AC1234-XYZ-pm25''"
    using C9_unique_id [of example_const ?co "''Purifier''" "''AC1234''" "''pm25''" "[]" s1] i1
    by (simp add: example_defs case_defs)
  moreover have "s_attr_unique_id s2 = ''AC1234-XYZ-iaql''"
    using C9_unique_id [of example_const ?co "''Purifier''" "''AC1234''" "''IAQL''" "[]" s2] i2
    by (simp add: example_defs case_defs)
  moreover have "f_attr_unique_id f = ''AC1234-17-HEPA_filter''"
    using C9_unique_id [of example_const ?co' "''Purifier''" "''AC1234''" _ _ _
                           "''HEPA_filter''" "[]" f] i3
    by (simp add: example_defs str_int_def str_nat.simps digit_char_def)
  ultimately show ?thesis using i1 i2 i3 by blast
qed

section \<open>Construction without a device id\<close>

text \<open>
  Claim C5. When the device-id key is absent from the status snapshot, constructing a
  Simple Sensor for a declared sensor identifier, or a Filter Sensor for a declared
  filter type, logs the KeyError of the failed lookup and raises PlatformNotReady, and
  nothing else.
\<close>

theorem C5_missing_device_id_is_not_ready:
  assumes "status coordinator (PHILIPS_DEVICE_ID c) = None"
  shows "(kind \<in> set (map fst (SENSOR_TYPES c)) \<longrightarrow>
            PhilipsSensor_init c coordinator name model kind =
              ([LogError ''Failed retrieving unique_id: %s'' (KeyError (PHILIPS_DEVICE_ID c))],
               Inl PlatformNotReady)) \<and>
         (fkind \<in> set (map fst (FILTER_TYPES c)) \<longrightarrow>
            PhilipsFilterSensor_init c coordinator name model fkind =
              ([LogError ''Failed retrieving unique_id: %s'' (KeyError (PHILIPS_DEVICE_ID c))],
               Inl PlatformNotReady))"
proof (intro conjI impI)
  assume "kind \<in> set (map fst (SENSOR_TYPES c))"
  then obtain d where "map_of (SENSOR_TYPES c) kind = Some d"
    by (metis map_of_eq_None_iff not_Some_eq set_map)
  with assms show "PhilipsSensor_init c coordinator name model kind =
      ([LogError ''Failed retrieving unique_id: %s'' (KeyError (PHILIPS_DEVICE_ID c))],
       Inl PlatformNotReady)"
    by (simp add: PhilipsSensor_init_def table_getitem_def getitem_def device_status_def)
next
  assume "fkind \<in> set (map fst (FILTER_TYPES c))"
  then obtain d where "map_of (FILTER_TYPES c) fkind = Some d"
    by (metis map_of_eq_None_iff not_Some_eq set_map)
  with assms show "PhilipsFilterSensor_init c coordinator name model fkind =
      ([LogError ''Failed retrieving unique_id: %s'' (KeyError (PHILIPS_DEVICE_ID c))],
       Inl PlatformNotReady)"
    by (simp add: PhilipsFilterSensor_init_def table_getitem_def getitem_def device_status_def
                  Let_def)
qed

theorem C5_witness:
  "status (example_status [(''pm25'', PInt 7), (''preFilterStatus0'', PInt 48)])
     (PHILIPS_DEVICE_ID example_const) = None
   \<and> ''pm25'' \<in> set (map fst (SENSOR_TYPES example_const))
   \<and> PhilipsSensor_init example_const
       (example_status [(''pm25'', PInt 7), (''preFilterStatus0'', PInt 48)])
       ''Purifier'' ''AC1234'' ''pm25'' =
       ([LogError ''Failed retrieving unique_id: %s'' (KeyError ''DeviceId'')],
        Inl PlatformNotReady)
   \<and> ''pre_filter'' \<in> set (map fst (FILTER_TYPES example_const))
   \<and> PhilipsFilterSensor_init example_const
       (example_status [(''pm25'', PInt 7), (''preFilterStatus0'', PInt 48)])
       ''Purifier'' ''AC1234'' ''pre_filter'' =
       ([LogError ''Failed retrieving unique_id: %s'' (KeyError ''DeviceId'')],
        Inl PlatformNotReady)"
proof -
  let ?co = "example_status [(''pm25'', PInt 7), (''preFilterStatus0'', PInt 48)]"
  have absent: "status ?co (PHILIPS_DEVICE_ID example_const) = None"
    by (simp add: example_defs)
  have k1: "''pm25'' \<in> set (map fst (SENSOR_TYPES example_const))"
    by (simp add: example_defs)
  have k2: "''pre_filter'' \<in> set (map fst (FILTER_TYPES example_const))"
    by (simp add: example_defs)
  have id: "PHILIPS_DEVICE_ID example_const = ''DeviceId''"
    by (simp add: example_defs)
  show ?thesis
    using C5_missing_device_id_is_not_ready [OF absent, of "''pm25''" "''Purifier''" "''AC1234''"
              "''pre_filter''"] absent k1 k2
    unfolding id by blast
qed

text \<open>
  The same happens when the device id is in the snapshot but is an integer with more
  digits than the f-string can format: the ValueError is logged and PlatformNotReady is
  raised, by both constructors.
\<close>

theorem device_id_without_text_is_not_ready:
  assumes "status coordinator (PHILIPS_DEVICE_ID c) = Some (PInt i)"
    and "10 ^ int_max_str_digits \<le> \<bar>i\<bar>"
  shows "(kind \<in> set (map fst (SENSOR_TYPES c)) \<longrightarrow>
            PhilipsSensor_init c coordinator name model kind =
              ([LogError ''Failed retrieving unique_id: %s'' ValueError], Inl PlatformNotReady)) \<and>
         (fkind \<in> set (map fst (FILTER_TYPES c)) \<longrightarrow>
            PhilipsFilterSensor_init c coordinator name model fkind =
              ([LogError ''Failed retrieving unique_id: %s'' ValueError], Inl PlatformNotReady))"
proof (intro conjI impI)
  from assms(2) have fmt: "py_format (PInt i) = Inl ValueError"
    by (simp add: py_format_int)
  {
    assume "kind \<in> set (map fst (SENSOR_TYPES c))"
    then obtain d where "map_of (SENSOR_TYPES c) kind = Some d"
      by (metis map_of_eq_None_iff not_Some_eq set_map)
    with assms(1) fmt show "PhilipsSensor_init c coordinator name model kind =
        ([LogError ''Failed retrieving unique_id: %s'' ValueError], Inl PlatformNotReady)"
      by (simp add: PhilipsSensor_init_def table_getitem_def getitem_def device_status_def)
  }
  {
    assume "fkind \<in> set (map fst (FILTER_TYPES c))"
    then obtain d where "map_of (FILTER_TYPES c) fkind = Some d"
      by (metis map_of_eq_None_iff not_Some_eq set_map)
    with assms(1) fmt show "PhilipsFilterSensor_init c coordinator name model fkind =
        ([LogError ''Failed retrieving unique_id: %s'' ValueError], Inl PlatformNotReady)"
      by (simp add: PhilipsFilterSensor_init_def table_getitem_def getitem_def device_status_def
                    Let_def)
  }
qed

theorem device_id_without_text_example:
  "PhilipsSensor_init example_const
     (example_status [(''DeviceId'', PInt (10 ^ int_max_str_digits)), (''pm25'', PInt 7)])
     ''Purifier'' ''AC1234'' ''pm25'' =
     ([LogError ''Failed retrieving unique_id: %s'' ValueError], Inl PlatformNotReady)
   \<and> PhilipsFilterSensor_init example_const
     (example_status [(''DeviceId'', PInt (10 ^ int_max_str_digits)), (''pm25'', PInt 7)])
     ''Purifier'' ''AC1234'' ''pre_filter'' =
     ([LogError ''Failed retrieving unique_id: %s'' ValueError], Inl PlatformNotReady)"
proof -
  let ?co = "example_status [(''DeviceId'', PInt (10 ^ int_max_str_digits)), (''pm25'', PInt 7)]"
  have dev: "status ?co (PHILIPS_DEVICE_ID example_const) = Some (PInt (10 ^ int_max_str_digits))"
    by (simp add: example_defs)
  have big: "(10::int) ^ int_max_str_digits \<le> \<bar>10 ^ int_max_str_digits\<bar>"
    by simp
  have k: "''pm25'' \<in> set (map fst (SENSOR_TYPES example_const))"
          "''pre_filter'' \<in> set (map fst (FILTER_TYPES example_const))"
    by (simp_all add: example_defs)
  from device_id_without_text_is_not_ready
         [OF dev big, of "''pm25''" "''Purifier''" "''AC1234''" "''pre_filter''"] k
  show ?thesis by blast
qed

section \<open>Filter sensors: the state\<close>

lemma timedelta_of_hours_in_range:
  assumes "\<bar>h div 24\<bar> \<le> 999999999"
  shows "timedelta_of_hours h = Inr \<lparr>days = h div 24, seconds = (h mod 24) * 3600, microseconds = 0\<rparr>"
proof -
  have d: "h * 3600 div (24 * 3600) = h div 24"
    by (rule div_mult_mult2) simp
  have m: "h * 3600 mod (24 * 3600) = (h mod 24) * 3600"
    by (rule mod_mult_mult2)
  show ?thesis using assms unfolding timedelta_of_hours_def Let_def d m by simp
qed

lemma str_int_0: "str_int 0 = ''0''"
  by (simp add: str_int_def str_nat.simps digit_char_def)

lemma timedelta_str_whole_hours:
  assumes "0 \<le> k" "k < 24"
  shows "timedelta_str \<lparr>days = d, seconds = k * 3600, microseconds = 0\<rparr> =
           (if d = 0 then [] else str_int d @ (if \<bar>d\<bar> = 1 then '' day, '' else '' days, ''))
           @ str_int k @ '':00:00''"
proof -
  have k: "k * 3600 = k * 60 * 60" by simp
  have a: "k * 3600 div 60 = k * 60" unfolding k by simp
  have b: "k * 3600 mod 60 = 0" unfolding k by simp
  have c: "k * 60 div 60 = k" by simp
  have e: "k * 60 mod 60 = 0" by simp
  show ?thesis
    unfolding timedelta_str_def Let_def
    by (simp add: a b c e str_int_0 zero_pad_def)
qed

text \<open>
  Claim C7. For a Filter Sensor whose total key is absent from the snapshot being read,
  \<^verbatim>\<open>state\<close> is the text \<^verbatim>\<open>str(timedelta(hours=value))\<close> of the int under the value
  key: the days (\<^verbatim>\<open>N day, \<close> or \<^verbatim>\<open>N days, \<close>, left out when zero) followed by
  \<^verbatim>\<open>H:00:00\<close>, where the days are \<open>value div 24\<close> and \<open>H\<close> is \<open>value mod 24\<close>;
  timedelta accepts at most 999999999 days in magnitude. The value 48 gives
  \<^verbatim>\<open>2 days, 0:00:00\<close>.
\<close>

theorem C7_state_without_total_is_duration_text:
  assumes "PhilipsFilterSensor_init c coordinator0 name model kind = (lg, Inr f)"
    and "map_of (FILTER_TYPES c) kind = Some d"
    and "status coordinator (join_key d (PHILIPS_FILTER_TOTAL c)) = None"
    and "status coordinator (join_key d (PHILIPS_FILTER_STATUS c)) = Some (PInt h)"
    and "\<bar>h div 24\<bar> \<le> 999999999"
  shows "PhilipsFilterSensor_state coordinator f =
           Inr (StateVal (PStr
             ((if h div 24 = 0 then []
               else str_int (h div 24) @ (if \<bar>h div 24\<bar> = 1 then '' day, '' else '' days, ''))
              @ str_int (h mod 24) @ '':00:00'')))"
proof -
  from assms(1,2) have keys:
    "f_value_key f = join_key d (PHILIPS_FILTER_STATUS c)"
    "f_total_key f = join_key d (PHILIPS_FILTER_TOTAL c)"
    by (auto elim!: PhilipsFilterSensor_init_Inr)
  have "PhilipsFilterSensor_time_remaining coordinator f =
          Inr (timedelta_str \<lparr>days = h div 24, seconds = (h mod 24) * 3600, microseconds = 0\<rparr>)"
    using assms(4,5) keys
    by (simp add: PhilipsFilterSensor_time_remaining_def PhilipsFilterSensor_value_def
                  getitem_def device_status_def timedelta_of_hours_in_range)
  moreover have "\<not> PhilipsFilterSensor_has_total coordinator f"
    using assms(3) keys
    by (simp add: PhilipsFilterSensor_has_total_def contains_def device_status_def)
  ultimately show ?thesis
    by (simp add: PhilipsFilterSensor_state_def timedelta_str_whole_hours)
qed

theorem C7_witness:
  "\<exists>f. PhilipsFilterSensor_init example_const
          (example_status [(''DeviceId'', PStr ''XYZ''), (''preFilterStatus0'', PInt 48)])
          ''Purifier'' ''AC1234'' ''pre_filter'' = ([], Inr f)
      \<and> PhilipsFilterSensor_state
          (example_status [(''DeviceId'', PStr ''XYZ''), (''preFilterStatus0'', PInt 48)]) f =
          Inr (StateVal (PStr ''2 days, 0:00:00''))
      \<and> PhilipsFilterSensor_state (example_status [(''preFilterStatus0'', PInt 25)]) f =
          Inr (StateVal (PStr ''1 day, 1:00:00''))
      \<and> PhilipsFilterSensor_state (example_status [(''preFilterStatus0'', PInt (- 5))]) f =
          Inr (StateVal (PStr ''-1 day, 19:00:00''))
      \<and> PhilipsFilterSensor_state (example_status [(''preFilterStatus0'', PInt 7)]) f =
          Inr (StateVal (PStr ''7:00:00''))"
proof -
  let ?co = "example_status [(''DeviceId'', PStr ''XYZ''), (''preFilterStatus0'', PInt 48)]"
  obtain f where init:
    "PhilipsFilterSensor_init example_const ?co ''Purifier'' ''AC1234'' ''pre_filter'' = ([], Inr f)"
    by (simp add: PhilipsFilterSensor_init_def table_getitem_def getitem_def device_status_def
                  example_defs Let_def)
  have decl: "map_of (FILTER_TYPES example_const) ''pre_filter'' =
                Some \<lparr>attr_prefix = ''pre'', attr_postfix = ''0''\<rparr>"
    by (simp add: example_defs)
  have tot: "status (example_status [(''DeviceId'', PStr ''XYZ''), (''preFilterStatus0'', PInt h)])
       (join_key \<lparr>attr_prefix = ''pre'', attr_postfix = ''0''\<rparr> (PHILIPS_FILTER_TOTAL example_const)) = None"
     "status (example_status [(''preFilterStatus0'', PInt h)])
       (join_key \<lparr>attr_prefix = ''pre'', attr_postfix = ''0''\<rparr> (PHILIPS_FILTER_TOTAL example_const)) = None"
    for h
    by (simp_all add: example_defs join_key_def)
  have val: "status (example_status [(''DeviceId'', PStr ''XYZ''), (''preFilterStatus0'', PInt h)])
       (join_key \<lparr>attr_prefix = ''pre'', attr_postfix = ''0''\<rparr> (PHILIPS_FILTER_STATUS example_const)) = Some (PInt h)"
     "status (example_status [(''preFilterStatus0'', PInt h)])
       (join_key \<lparr>attr_prefix = ''pre'', attr_postfix = ''0''\<rparr> (PHILIPS_FILTER_STATUS example_const)) = Some (PInt h)"
    for h
    by (simp_all add: example_defs join_key_def)
  show ?thesis
    using init
      C7_state_without_total_is_duration_text [OF init decl tot(1) val(1), of 48]
      C7_state_without_total_is_duration_text [OF init decl tot(2) val(2), of 25]
      C7_state_without_total_is_duration_text [OF init decl tot(2) val(2), of "- 5"]
      C7_state_without_total_is_duration_text [OF init decl tot(2) val(2), of 7]
    by (simp add: str_int_def str_nat.simps digit_char_def)
qed

section \<open>The float model: exponents and ranges\<close>

text \<open>
  \<open>floor_log2\<close> is the binary exponent of a positive rational, so \<open>to_double\<close> rounds to
  53 significant bits; an int below \<open>2^1023\<close> in magnitude converts to a finite double, and
  \<^verbatim>\<open>round(100.0 * v / t, 2)\<close> of an int \<open>v\<close> below \<open>2^1000\<close> and a non-zero int
  \<open>t\<close> below \<open>2^1023\<close> is a finite double: no exception, no infinity, no NaN.
\<close>

lemma pow2_powi: "pow2 e = 2 powi e"
  by (simp add: pow2_def power_int_def inverse_eq_divide power_one_over)

lemma pow2_pos: "0 < pow2 e"
  by (simp add: pow2_powi)

lemma pow2_add: "pow2 (a + b) = pow2 a * pow2 b"
  by (simp add: pow2_powi power_int_add)

lemma pow2_mono: "a \<le> b \<Longrightarrow> pow2 a \<le> pow2 b"
  by (simp add: pow2_powi power_int_increasing)

lemma pow2_nat: "pow2 (int n) = 2 ^ n"
  by (simp add: pow2_def)

lemma floor_log2_bounds:
  assumes "0 < q"
  shows "pow2 (floor_log2 q) \<le> q \<and> q < pow2 (floor_log2 q + 1)"
proof (cases "1 \<le> q")
  case True
  define n where "n = \<lfloor>q\<rfloor>"
  have n1: "1 \<le> n" using True by (simp add: n_def)
  then have npos: "0 < n" by simp
  have bl: "1 \<le> bitlen n" using npos bitlen_nonneg [of n] bitlen_eq_zero_iff [of n]
    by (cases "bitlen n = 0") auto
  from bitlen_bounds [OF npos] have lo: "2 ^ nat (bitlen n - 1) \<le> n" and hi: "n < 2 ^ nat (bitlen n)"
    by auto
  have e: "floor_log2 q = bitlen n - 1" using True by (simp add: floor_log2_def n_def)
  have "pow2 (bitlen n - 1) = of_int (2 ^ nat (bitlen n - 1))"
    using bl by (simp add: pow2_def)
  also have "\<dots> \<le> of_int n" using lo by (simp only: of_int_le_iff)
  also have "\<dots> \<le> q" by (simp add: n_def)
  finally have a: "pow2 (floor_log2 q) \<le> q" by (simp add: e)
  have "q < of_int (n + 1)" using floor_correct [of q] by (simp add: n_def)
  also have "\<dots> \<le> of_int (2 ^ nat (bitlen n))" using hi by (simp only: of_int_le_iff)
  also have "\<dots> = pow2 (bitlen n)" using bl by (simp add: pow2_def)
  finally have b: "q < pow2 (floor_log2 q + 1)" by (simp add: e)
  from a b show ?thesis by simp
next
  case False
  then have q1: "q < 1" by simp
  define r where "r = 1 / q"
  have r1: "1 < r" using assms q1 by (simp add: r_def)
  define m where "m = \<lceil>r\<rceil> - 1"
  have mpos: "0 < m" using r1 by (simp add: m_def less_ceiling_iff)
  define k where "k = bitlen m"
  have k1: "1 \<le> k" using mpos bitlen_nonneg [of m] bitlen_eq_zero_iff [of m]
    unfolding k_def by (cases "bitlen m = 0") auto
  from bitlen_bounds [OF mpos] have lo: "2 ^ nat (k - 1) \<le> m" and hi: "m < 2 ^ nat k"
    by (auto simp: k_def)
  have e: "floor_log2 q = - k" using False by (simp add: floor_log2_def k_def m_def r_def)
  have "r \<le> of_int \<lceil>r\<rceil>" by simp
  also have "\<dots> \<le> of_int (2 ^ nat k)" using hi by (simp only: of_int_le_iff m_def)
  finally have rk: "r \<le> 2 ^ nat k" by simp
  have "of_int (2 ^ nat (k - 1)) \<le> (of_int m :: rat)" using lo by (simp only: of_int_le_iff)
  also have "\<dots> < r" using ceiling_correct [of r] by (simp add: m_def)
  finally have rk': "2 ^ nat (k - 1) < r" by simp
  have a: "pow2 (- k) \<le> q"
  proof -
    have "1 / 2 ^ nat k \<le> 1 / r" using rk r1 by (simp add: frac_le)
    then show ?thesis using k1 assms by (simp add: pow2_def r_def)
  qed
  have b: "q < pow2 (- k + 1)"
  proof -
    have "1 / r < 1 / 2 ^ nat (k - 1)" using rk' by (simp add: frac_less2)
    moreover have "pow2 (- k + 1) = 1 / 2 ^ nat (k - 1)"
      using k1 by (cases "k = 1") (simp_all add: pow2_def)
    ultimately show ?thesis using assms by (simp add: r_def)
  qed
  from a b show ?thesis by (simp add: e)
qed


lemma round_half_even_le: "round_half_even x \<le> \<lfloor>x\<rfloor> + 1"
  by (simp add: round_half_even_def Let_def)

lemma round_half_even_ge: "\<lfloor>x\<rfloor> \<le> round_half_even x"
  by (simp add: round_half_even_def Let_def)

lemma to_double_bounds:
  assumes "0 \<le> q" and "q < pow2 n" and "- 1021 \<le> n" and "n \<le> 1023"
  shows "\<exists>r. to_double s q = Finite s r \<and> 0 \<le> r \<and> r \<le> pow2 n"
proof (cases "q = 0")
  case True
  then show ?thesis using pow2_pos [of n] by (simp add: to_double_def)
next
  case False
  with assms(1) have qpos: "0 < q" by simp
  define e where "e = max (floor_log2 q) (- 1022)"
  define ulp where "ulp = pow2 (e - 52)"
  define x where "x = q / ulp"
  define r where "r = of_int (round_half_even x) * ulp"
  from floor_log2_bounds [OF qpos] have
    lo: "pow2 (floor_log2 q) \<le> q" and hi: "q < pow2 (floor_log2 q + 1)" by auto
  have "floor_log2 q < n"
  proof (rule ccontr)
    assume "\<not> floor_log2 q < n"
    then have "pow2 n \<le> pow2 (floor_log2 q)" by (intro pow2_mono) simp
    with lo assms(2) show False by simp
  qed
  with assms(3) have e_le: "e + 1 \<le> n" by (simp add: e_def)
  have "e + 1 = 53 + (e - 52)" by simp
  then have split: "pow2 (e + 1) = pow2 53 * ulp"
    unfolding ulp_def by (simp only: pow2_add)
  have "q < pow2 (e + 1)"
    using hi pow2_mono [of "floor_log2 q + 1" "e + 1"] by (simp add: e_def)
  also note split
  finally have q_lt: "q < pow2 53 * ulp" .
  have ulp_pos: "0 < ulp" by (simp add: ulp_def pow2_pos)
  have xpos: "0 < x" using qpos ulp_pos by (simp add: x_def)
  have "x < pow2 53" using q_lt ulp_pos by (simp add: x_def pos_divide_less_eq)
  then have "x < of_int (2 ^ 53)" by (simp add: pow2_def)
  then have fl: "\<lfloor>x\<rfloor> < 2 ^ 53" by (simp only: floor_less_iff)
  with round_half_even_le [of x] have "round_half_even x \<le> 2 ^ 53" by linarith
  then have "(of_int (round_half_even x) :: rat) \<le> of_int (2 ^ 53)"
    by (simp only: of_int_le_iff)
  then have "r \<le> pow2 53 * ulp"
    using ulp_pos by (simp add: r_def pow2_def)
  also have "\<dots> = pow2 (e + 1)" by (simp only: split)
  also have "\<dots> \<le> pow2 n" using e_le by (intro pow2_mono)
  finally have r_le: "r \<le> pow2 n" .
  have "0 \<le> \<lfloor>x\<rfloor>" using xpos by simp
  with round_half_even_ge [of x] have "0 \<le> round_half_even x" by linarith
  then have r_ge: "0 \<le> r" using ulp_pos by (simp add: r_def)
  have "pow2 n < pow2 1024"
  proof -
    have "pow2 n \<le> pow2 1023" using assms(4) by (intro pow2_mono)
    also have "\<dots> < pow2 1024"
      using pow2_add [of 1023 1] pow2_pos [of 1023] by (simp add: pow2_def [of 1])
    finally show ?thesis .
  qed
  with r_le have "\<not> pow2 1024 \<le> r" by simp
  then have "to_double s q = Finite s r"
    using False unfolding to_double_def Let_def
    by (simp only: r_def x_def ulp_def e_def) simp
  with r_le r_ge show ?thesis by blast
qed

lemma to_double_ge_1:
  assumes "1 \<le> q" and "to_double s q = Finite s' r"
  shows "1 \<le> r"
proof -
  have qpos: "0 < q" using assms(1) by simp
  define e where "e = floor_log2 q"
  define ulp where "ulp = pow2 (e - 52)"
  define x where "x = q / ulp"
  from floor_log2_bounds [OF qpos] have
    lo: "pow2 e \<le> q" and hi: "q < pow2 (e + 1)" by (auto simp: e_def)
  have e0: "0 \<le> e"
  proof (rule ccontr)
    assume "\<not> 0 \<le> e"
    then have "pow2 (e + 1) \<le> pow2 0" by (intro pow2_mono) simp
    with hi assms(1) show False by (simp add: pow2_def)
  qed
  then have mx: "max (floor_log2 q) (- 1022) = e" by (simp add: e_def)
  have split: "pow2 e = pow2 52 * ulp"
    using pow2_add [of 52 "e - 52"] by (simp add: ulp_def)
  have ulp_pos: "0 < ulp" by (simp add: ulp_def pow2_pos)
  have "pow2 52 \<le> x" using lo ulp_pos by (simp add: x_def split pos_le_divide_eq)
  then have "of_int (2 ^ 52) \<le> x" by (simp add: pow2_def)
  then have "2 ^ 52 \<le> \<lfloor>x\<rfloor>" by (simp only: le_floor_iff)
  with round_half_even_ge [of x] have "2 ^ 52 \<le> round_half_even x" by linarith
  then have "(of_int (2 ^ 52) :: rat) \<le> of_int (round_half_even x)"
    by (simp only: of_int_le_iff)
  then have "pow2 52 * ulp \<le> of_int (round_half_even x) * ulp"
    using ulp_pos by (simp add: pow2_def)
  then have "pow2 e \<le> of_int (round_half_even x) * ulp" by (simp only: split)
  moreover have "pow2 0 \<le> pow2 e" using e0 by (intro pow2_mono)
  ultimately have ge: "1 \<le> of_int (round_half_even x) * ulp" by (simp add: pow2_def)
  have "r = of_int (round_half_even x) * ulp"
    using assms(2) qpos unfolding to_double_def Let_def mx
    by (simp add: x_def ulp_def split: if_splits)
  with ge show ?thesis by simp
qed

lemma float_of_int_in_range:
  assumes "\<bar>i\<bar> < 2 ^ n" and "n \<le> 1023"
  shows "\<exists>r. float_of_int i = Inr (Finite (i < 0) r) \<and> 0 \<le> r \<and> r \<le> 2 ^ n
             \<and> (i \<noteq> 0 \<longrightarrow> 1 \<le> r)"
proof -
  have "(of_int \<bar>i\<bar> :: rat) < of_int (2 ^ n)" using assms(1) by (simp only: of_int_less_iff)
  then have lt: "(of_int \<bar>i\<bar> :: rat) < pow2 (int n)" by (simp add: pow2_nat)
  have "(0::rat) \<le> of_int \<bar>i\<bar>" by simp
  from to_double_bounds [OF this lt, of "i < 0"] assms(2) obtain r where
    r: "to_double (i < 0) (of_int \<bar>i\<bar>) = Finite (i < 0) r" "0 \<le> r" "r \<le> pow2 (int n)"
    by auto
  have "1 \<le> r" if "i \<noteq> 0"
  proof -
    from that have "1 \<le> \<bar>i\<bar>" by simp
    then have "(1::rat) \<le> of_int \<bar>i\<bar>" by (simp only: of_int_1_le_iff)
    from to_double_ge_1 [OF this r(1)] show ?thesis .
  qed
  with r show ?thesis by (auto simp: float_of_int_def pow2_nat)
qed


lemma pow2_numeral_less: "pow2 1007 < pow2 1008" "pow2 1008 + 1 < pow2 1009"
proof -
  have a: "pow2 1008 = 2 * pow2 1007" using pow2_add [of 1 1007] by (simp add: pow2_def [of 1])
  have b: "pow2 1009 = 2 * pow2 1008" using pow2_add [of 1 1008] by (simp add: pow2_def [of 1])
  have c: "2 \<le> pow2 1008" using pow2_mono [of 1 1008] by (simp add: pow2_def [of 1])
  show "pow2 1007 < pow2 1008" using pow2_pos [of 1007] by (simp add: a)
  show "pow2 1008 + 1 < pow2 1009" using c pow2_pos [of 1008] unfolding b by linarith
qed

lemma percentage_of_ints:
  assumes "\<bar>v\<bar> < 2 ^ 1000" and "t \<noteq> 0" and "\<bar>t\<bar> < 2 ^ 1023"
  shows "\<exists>s p. (case float_mul (Finite False 100) (PInt v) of
                   Inl e \<Rightarrow> Inl e
                 | Inr x \<Rightarrow>
                     (case float_truediv x (PInt t) of
                        Inl e \<Rightarrow> Inl e
                      | Inr y \<Rightarrow> float_round y 2)) = Inr (Finite s p)"
proof -
  from float_of_int_in_range [OF assms(1)] obtain rv where
    v: "float_of_int v = Inr (Finite (v < 0) rv)" and rv: "0 \<le> rv" "rv \<le> 2 ^ 1000"
    by auto
  from float_of_int_in_range [OF assms(3)] assms(2) obtain rt where
    t: "float_of_int t = Inr (Finite (t < 0) rt)" and rt: "1 \<le> rt"
    by auto
  \<comment> \<open>the product\<close>
  have "100 * rv \<le> 128 * 2 ^ 1000" using rv by simp
  also have "\<dots> = pow2 1007" using pow2_add [of 7 1000] by (simp add: pow2_def [of 7] pow2_def [of 1000])
  also note pow2_numeral_less(1)
  finally have "100 * rv < pow2 1008" .
  moreover have "0 \<le> 100 * rv" using rv by simp
  ultimately obtain rx where
    x: "to_double (v < 0) (100 * rv) = Finite (v < 0) rx"
    and rx: "0 \<le> rx" "rx \<le> pow2 1008"
    using to_double_bounds [of "100 * rv" 1008 "False \<noteq> (v < 0)"] by auto
  have mul: "float_mul (Finite False 100) (PInt v) = Inr (Finite (v < 0) rx)"
    by (simp add: float_mul_def v x)
  \<comment> \<open>the quotient\<close>
  have "rx * 1 \<le> rx * rt" using rx(1) rt by (intro mult_left_mono)
  then have "rx / rt \<le> rx" using rt by (simp add: divide_le_eq)
  with rx have "rx / rt < pow2 1009"
    using pow2_numeral_less(2) by linarith
  moreover have "0 \<le> rx / rt" using rx rt by simp
  ultimately obtain ry sy where
    y: "to_double sy (rx / rt) = Finite sy ry" and sy: "sy = ((v < 0) \<noteq> (t < 0))"
    and ry: "0 \<le> ry" "ry \<le> pow2 1009"
    using to_double_bounds [of "rx / rt" 1009 "(v < 0) \<noteq> (t < 0)"] by auto
  have nz: "\<not> is_zero (Finite (t < 0) rt)" using rt by simp
  have dv: "float_truediv (Finite (v < 0) rx) (PInt t) = Inr (Finite sy ry)"
    using y nz by (simp add: float_truediv_def t sy)
  \<comment> \<open>the rounding\<close>
  define q where "q = (of_int (round_half_even (ry * 10 ^ 2)) :: rat) / 10 ^ 2"
  have "of_int (round_half_even (ry * 10 ^ 2)) \<le> (of_int (\<lfloor>ry * 10 ^ 2\<rfloor> + 1) :: rat)"
    using round_half_even_le [of "ry * 10 ^ 2"] by (simp only: of_int_le_iff)
  also have "\<dots> \<le> ry * 10 ^ 2 + 1" by simp
  finally have "q \<le> ry + 1 / 100" by (simp add: q_def divide_le_eq)
  moreover have "pow2 1009 + 1 < pow2 1010"
  proof -
    have b: "pow2 1010 = 2 * pow2 1009" using pow2_add [of 1 1009] by (simp add: pow2_def [of 1])
    have c: "2 \<le> pow2 1009" using pow2_mono [of 1 1009] by (simp add: pow2_def [of 1])
    show ?thesis using c pow2_pos [of 1009] unfolding b by linarith
  qed
  ultimately have q_lt: "q < pow2 1010" using ry by linarith
  have "0 \<le> \<lfloor>ry * 10 ^ 2\<rfloor>" using ry by simp
  with round_half_even_ge [of "ry * 10 ^ 2"] have "0 \<le> round_half_even (ry * 10 ^ 2)"
    by linarith
  then have q_ge: "0 \<le> q" by (simp add: q_def)
  from to_double_bounds [OF q_ge q_lt, of sy] obtain p where
    "to_double sy q = Finite sy p" by auto
  then have "float_round (Finite sy ry) 2 = Inr (Finite sy p)"
    by (simp add: float_round.simps q_def)
  then show ?thesis by (simp add: mul dv)
qed

section \<open>Filter sensors: percentage, zero total, and the unit\<close>


lemma extra_state_attributes_unit:
  "f_attr_unit_of_measurement (snd (PhilipsFilterSensor_extra_state_attributes c coordinator f)) =
     f_attr_unit_of_measurement f"
  by (simp add: PhilipsFilterSensor_extra_state_attributes_def attrs_set_def Let_def
           split: sum.splits)

text \<open>
  Claim C10. For a Filter Sensor constructed while the coordinator's status was
  \<open>status coordinator0\<close>, every read of \<^verbatim>\<open>state\<close> chooses between the percentage
  and the duration text by whether the total key is in the status at the time of the read,
  while the unit of measurement is what the construction set (percent exactly when the
  total key was in the status then) and reading the attributes does not change it.
\<close>

theorem C10_branch_is_live_unit_is_fixed:
  assumes "PhilipsFilterSensor_init c coordinator0 name model kind = (lg, Inr f)"
    and "map_of (FILTER_TYPES c) kind = Some d"
  shows "PhilipsFilterSensor_state coordinator f =
           (if contains (status coordinator) (join_key d (PHILIPS_FILTER_TOTAL c))
            then (case PhilipsFilterSensor_percentage coordinator f of
                    Inl e \<Rightarrow> Inl e
                  | Inr p \<Rightarrow> Inr (StateFloat p))
            else (case PhilipsFilterSensor_time_remaining coordinator f of
                    Inl e \<Rightarrow> Inl e
                  | Inr s \<Rightarrow> Inr (StateVal (PStr s))))
         \<and> f_attr_unit_of_measurement f =
             (if contains (status coordinator0) (join_key d (PHILIPS_FILTER_TOTAL c))
              then Some PERCENTAGE else None)
         \<and> f_attr_unit_of_measurement
             (snd (PhilipsFilterSensor_extra_state_attributes c coordinator f)) =
             f_attr_unit_of_measurement f"
proof -
  from assms have keys:
    "f_total_key f = join_key d (PHILIPS_FILTER_TOTAL c)"
    "f_attr_unit_of_measurement f =
       (if contains (status coordinator0) (join_key d (PHILIPS_FILTER_TOTAL c))
        then Some PERCENTAGE else None)"
    by (auto elim!: PhilipsFilterSensor_init_Inr)
  show ?thesis
    using keys
    by (simp add: PhilipsFilterSensor_state_def PhilipsFilterSensor_has_total_def
                  device_status_def extra_state_attributes_unit)
qed

lemmas float_eval = float_of_int_def to_double_def floor_log2_def pow2_def round_half_even_def
  Let_def compute_bitlen float_mul_def float_truediv_def float_round.simps

lemmas filter_defs = PhilipsFilterSensor_state_def PhilipsFilterSensor_has_total_def
  PhilipsFilterSensor_percentage_def PhilipsFilterSensor_time_remaining_def
  PhilipsFilterSensor_value_def PhilipsFilterSensor_total_def
  device_status_def contains_def getitem_def

lemma state_with_total:
  assumes "f_value_key f = vk" and "f_total_key f = tk"
    and "status coordinator tk = Some tot"
    and "status coordinator vk = Some v"
  shows "PhilipsFilterSensor_state coordinator f =
           (case float_mul (Finite False 100) v of
              Inl e \<Rightarrow> Inl e
            | Inr x \<Rightarrow>
                (case float_truediv x tot of
                   Inl e \<Rightarrow> Inl e
                 | Inr y \<Rightarrow>
                     (case float_round y 2 of
                        Inl e \<Rightarrow> Inl e
                      | Inr p \<Rightarrow> Inr (StateFloat p))))"
  using assms by (simp add: filter_defs split: sum.splits)

text \<open>
  Claim C1, amended. Whenever the total key is in the snapshot at the time of the read
  (whether or not it was at construction), \<^verbatim>\<open>state\<close> evaluates
  \<^verbatim>\<open>round(100.0 * value / total, 2)\<close> on the value and total of that snapshot: the
  product, then the quotient, then the rounding, each raising what Python raises.
\<close>

theorem C1_percentage_reads_live_snapshot:
  assumes "PhilipsFilterSensor_init c coordinator0 name model kind = (lg, Inr f)"
    and "map_of (FILTER_TYPES c) kind = Some d"
    and "status coordinator (join_key d (PHILIPS_FILTER_TOTAL c)) = Some tot"
    and "status coordinator (join_key d (PHILIPS_FILTER_STATUS c)) = Some v"
  shows "PhilipsFilterSensor_state coordinator f =
           (case float_mul (Finite False 100) v of
              Inl e \<Rightarrow> Inl e
            | Inr x \<Rightarrow>
                (case float_truediv x tot of
                   Inl e \<Rightarrow> Inl e
                 | Inr y \<Rightarrow>
                     (case float_round y 2 of
                        Inl e \<Rightarrow> Inl e
                      | Inr p \<Rightarrow> Inr (StateFloat p))))
         \<and> (\<forall>i j. v = PInt i \<and> tot = PInt j \<and> \<bar>i\<bar> < 2 ^ 1000 \<and> j \<noteq> 0 \<and> \<bar>j\<bar> < 2 ^ 1023 \<longrightarrow>
                (\<exists>s p. PhilipsFilterSensor_state coordinator f = Inr (StateFloat (Finite s p))))"
proof -
  from assms(1,2) have keys:
    "f_value_key f = join_key d (PHILIPS_FILTER_STATUS c)"
    "f_total_key f = join_key d (PHILIPS_FILTER_TOTAL c)"
    by (auto elim!: PhilipsFilterSensor_init_Inr)
  note eq = state_with_total [OF keys assms(3,4)]
  have "\<exists>s p. PhilipsFilterSensor_state coordinator f = Inr (StateFloat (Finite s p))"
    if "v = PInt i" "tot = PInt j" "\<bar>i\<bar> < 2 ^ 1000" "j \<noteq> 0" "\<bar>j\<bar> < 2 ^ 1023" for i j
  proof -
    from percentage_of_ints [OF that(3,4,5)] obtain s p where
      "(case float_mul (Finite False 100) (PInt i) of
          Inl e \<Rightarrow> Inl e
        | Inr x \<Rightarrow>
            (case float_truediv x (PInt j) of
               Inl e \<Rightarrow> Inl e
             | Inr y \<Rightarrow> float_round y 2)) = Inr (Finite s p)"
      by blast
    then have "PhilipsFilterSensor_state coordinator f = Inr (StateFloat (Finite s p))"
      unfolding eq that(1,2) by (auto split: sum.splits)
    then show ?thesis by blast
  qed
  with eq show ?thesis by blast
qed


lemma example_filter_init:
  "PhilipsFilterSensor_init example_const example_snapshot ''Purifier'' ''AC1234'' ''pre_filter'' =
     ([], Inr example_filter)"
  by (simp add: PhilipsFilterSensor_init_def table_getitem_def getitem_def device_status_def
                example_defs example_snapshot_def example_filter_def Let_def join_key_def
                PhilipsFilterSensor_has_total_def contains_def PERCENTAGE_def case_defs)

lemma example_pre_filter:
  "map_of (FILTER_TYPES example_const) ''pre_filter'' =
     Some \<lparr>attr_prefix = ''pre'', attr_postfix = ''0''\<rparr>"
  "join_key \<lparr>attr_prefix = ''pre'', attr_postfix = ''0''\<rparr> (PHILIPS_FILTER_STATUS example_const) =
     ''preFilterStatus0''"
  "join_key \<lparr>attr_prefix = ''pre'', attr_postfix = ''0''\<rparr> (PHILIPS_FILTER_TOTAL example_const) =
     ''preFilterTotal0''"
  "join_key \<lparr>attr_prefix = ''pre'', attr_postfix = ''0''\<rparr> (PHILIPS_FILTER_TYPE example_const) =
     ''preFilterType0''"
  by (simp_all add: example_defs join_key_def)

lemma percent_48_96:
  "float_mul (Finite False 100) (PInt 48) = Inr (Finite False 4800)"
  "float_truediv (Finite False 4800) (PInt 96) = Inr (Finite False 50)"
  "float_round (Finite False 50) 2 = Inr (Finite False 50)"
  by (simp_all add: float_eval)

lemma percent_24_96:
  "float_mul (Finite False 100) (PInt 24) = Inr (Finite False 2400)"
  "float_truediv (Finite False 2400) (PInt 96) = Inr (Finite False 25)"
  "float_round (Finite False 25) 2 = Inr (Finite False 25)"
  by (simp_all add: float_eval)

text \<open>
  Claim C1 as stated fails: the pre-filter sensor is constructed from a snapshot that has
  the total key, and a later snapshot without it makes \<^verbatim>\<open>state\<close> the duration text,
  not a percentage.
\<close>

theorem C1_counterexample:
  "PhilipsFilterSensor_init example_const example_snapshot ''Purifier'' ''AC1234'' ''pre_filter'' =
     ([], Inr example_filter)
   \<and> status example_snapshot ''preFilterTotal0'' = Some (PInt 96)
   \<and> PhilipsFilterSensor_state
        (example_status [(''DeviceId'', PStr ''XYZ''), (''preFilterStatus0'', PInt 48)])
        example_filter = Inr (StateVal (PStr ''2 days, 0:00:00''))"
  by (simp add: example_filter_init)
     (simp add: example_snapshot_def example_status_def example_filter_def filter_defs
                timedelta_of_hours_def timedelta_str_def zero_pad_def Let_def
                str_int_def str_nat.simps digit_char_def)

theorem C1_witness:
  "PhilipsFilterSensor_state example_snapshot example_filter = Inr (StateFloat (Finite False 50))
   \<and> PhilipsFilterSensor_state
        (example_status [(''preFilterStatus0'', PInt 24), (''preFilterTotal0'', PInt 96)])
        example_filter = Inr (StateFloat (Finite False 25))"
proof -
  have s1: "status example_snapshot ''preFilterTotal0'' = Some (PInt 96)"
           "status example_snapshot ''preFilterStatus0'' = Some (PInt 48)"
    by (simp_all add: example_snapshot_def example_status_def)
  let ?co = "example_status [(''preFilterStatus0'', PInt 24), (''preFilterTotal0'', PInt 96)]"
  have s2: "status ?co ''preFilterTotal0'' = Some (PInt 96)"
           "status ?co ''preFilterStatus0'' = Some (PInt 24)"
    by (simp_all add: example_status_def)
  show ?thesis
    using C1_percentage_reads_live_snapshot
            [OF example_filter_init example_pre_filter(1), unfolded example_pre_filter, OF s1,
             THEN conjunct1]
          C1_percentage_reads_live_snapshot
            [OF example_filter_init example_pre_filter(1), unfolded example_pre_filter, OF s2,
             THEN conjunct1]
    by (simp add: percent_48_96 percent_24_96)
qed



theorem C10_witness:
  "PhilipsFilterSensor_init example_const example_snapshot ''Purifier'' ''AC1234'' ''pre_filter'' =
     ([], Inr example_filter)
   \<and> f_attr_unit_of_measurement example_filter = Some ''%''
   \<and> PhilipsFilterSensor_state example_snapshot example_filter =
       Inr (StateFloat (Finite False 50))
   \<and> PhilipsFilterSensor_state (example_status [(''preFilterStatus0'', PInt 48)]) example_filter =
       Inr (StateVal (PStr ''2 days, 0:00:00''))
   \<and> f_attr_unit_of_measurement
       (snd (PhilipsFilterSensor_extra_state_attributes example_const
               (example_status [(''preFilterStatus0'', PInt 48)]) example_filter)) = Some ''%''
   \<and> (\<exists>f. PhilipsFilterSensor_init example_const
               (example_status [(''DeviceId'', PStr ''XYZ''), (''preFilterStatus0'', PInt 48)])
               ''Purifier'' ''AC1234'' ''pre_filter'' = ([], Inr f)
          \<and> f_attr_unit_of_measurement f = None
          \<and> PhilipsFilterSensor_state example_snapshot f = Inr (StateFloat (Finite False 50)))"
proof -
  let ?co = "example_status [(''preFilterStatus0'', PInt 48)]"
  let ?start = "example_status [(''DeviceId'', PStr ''XYZ''), (''preFilterStatus0'', PInt 48)]"
  note inst = C10_branch_is_live_unit_is_fixed
               [OF example_filter_init example_pre_filter(1), unfolded example_pre_filter]
  have p: "PhilipsFilterSensor_percentage example_snapshot example_filter = Inr (Finite False 50)"
    by (simp add: example_snapshot_def example_status_def example_filter_def filter_defs
                  percent_48_96)
  have t: "PhilipsFilterSensor_time_remaining ?co example_filter = Inr ''2 days, 0:00:00''"
    by (simp add: example_status_def example_filter_def filter_defs
                  timedelta_of_hours_def timedelta_str_def zero_pad_def Let_def
                  str_int_def str_nat.simps digit_char_def)
  have c1: "contains (status example_snapshot) ''preFilterTotal0''"
    by (simp add: contains_def example_snapshot_def example_status_def)
  have c2: "\<not> contains (status ?co) ''preFilterTotal0''"
    by (simp add: contains_def example_status_def)
  have first: "PhilipsFilterSensor_init example_const example_snapshot ''Purifier'' ''AC1234''
       ''pre_filter'' = ([], Inr example_filter)
   \<and> f_attr_unit_of_measurement example_filter = Some ''%''
   \<and> PhilipsFilterSensor_state example_snapshot example_filter =
       Inr (StateFloat (Finite False 50))
   \<and> PhilipsFilterSensor_state ?co example_filter = Inr (StateVal (PStr ''2 days, 0:00:00''))
   \<and> f_attr_unit_of_measurement
       (snd (PhilipsFilterSensor_extra_state_attributes example_const ?co example_filter)) =
       Some ''%''"
    using inst [of example_snapshot] inst [of ?co] example_filter_init p t c1 c2
    by (simp add: PERCENTAGE_def)
  obtain f where init:
    "PhilipsFilterSensor_init example_const ?start ''Purifier'' ''AC1234'' ''pre_filter'' =
       ([], Inr f)"
    by (simp add: PhilipsFilterSensor_init_def table_getitem_def getitem_def device_status_def
                  example_defs Let_def)
  note inst' = C10_branch_is_live_unit_is_fixed
               [OF init example_pre_filter(1), unfolded example_pre_filter]
  have c0: "\<not> contains (status ?start) ''preFilterTotal0''"
    by (simp add: contains_def example_status_def)
  have keys: "f_value_key f = ''preFilterStatus0''" "f_total_key f = ''preFilterTotal0''"
    using init example_pre_filter by (auto elim!: PhilipsFilterSensor_init_Inr)
  have p': "PhilipsFilterSensor_percentage example_snapshot f = Inr (Finite False 50)"
    by (simp add: example_snapshot_def example_status_def keys filter_defs percent_48_96)
  have second: "f_attr_unit_of_measurement f = None
      \<and> PhilipsFilterSensor_state example_snapshot f = Inr (StateFloat (Finite False 50))"
    using inst' [of example_snapshot] c0 c1 p' by simp
  from first init second show ?thesis by blast
qed

section \<open>Filter sensors: the attributes\<close>

text \<open>
  Claim C6, amended. \<^verbatim>\<open>extra_state_attributes\<close> assigns into the dict the entity
  keeps and returns that dict. When the value key is in the snapshot (and, with the total
  key present, the value is a valid hour count) the read returns, and in the result: the
  raw key holds the current value; the type key holds the current type entry when the
  type key is in the snapshot, and otherwise whatever the stored dict held; the total and
  time-remaining keys hold the current total and the duration text of the value when the
  total key is in the snapshot, and otherwise whatever the stored dict held; every other
  key is as stored. On the first read after construction the stored dict is empty, so a
  key is then present exactly when its condition holds.
\<close>

theorem C6_attributes_update_the_stored_dict:
  assumes "distinct [ATTR_TYPE c, ATTR_RAW c, ATTR_TOTAL c, ATTR_TIME_REMAINING c]"
    and "status coordinator (f_value_key f) = Some v"
    and "contains (status coordinator) (f_total_key f) \<longrightarrow> timedelta_hours v = Inr td"
  shows "\<exists>attrs.
           PhilipsFilterSensor_extra_state_attributes c coordinator f =
             (Inr attrs, f\<lparr>f_attrs := attrs\<rparr>)
         \<and> attrs (ATTR_RAW c) = Some v
         \<and> attrs (ATTR_TYPE c) =
             (if contains (status coordinator) (f_type_key f)
              then status coordinator (f_type_key f) else f_attrs f (ATTR_TYPE c))
         \<and> attrs (ATTR_TOTAL c) =
             (if contains (status coordinator) (f_total_key f)
              then status coordinator (f_total_key f) else f_attrs f (ATTR_TOTAL c))
         \<and> attrs (ATTR_TIME_REMAINING c) =
             (if contains (status coordinator) (f_total_key f)
              then Some (PStr (timedelta_str td)) else f_attrs f (ATTR_TIME_REMAINING c))
         \<and> (\<forall>k. k \<notin> {ATTR_TYPE c, ATTR_RAW c, ATTR_TOTAL c, ATTR_TIME_REMAINING c} \<longrightarrow>
                attrs k = f_attrs f k)"
proof (cases "contains (status coordinator) (f_total_key f)")
  from assms(1) have ne:
    "ATTR_RAW c \<noteq> ATTR_TYPE c" "ATTR_TOTAL c \<noteq> ATTR_TYPE c"
    "ATTR_TIME_REMAINING c \<noteq> ATTR_TYPE c" "ATTR_TOTAL c \<noteq> ATTR_RAW c"
    "ATTR_TIME_REMAINING c \<noteq> ATTR_RAW c" "ATTR_TIME_REMAINING c \<noteq> ATTR_TOTAL c"
    by auto
  case True
  then obtain t where t: "status coordinator (f_total_key f) = Some t"
    by (auto simp: contains_def)
  from True assms(3) have td: "timedelta_hours v = Inr td" by simp
  show ?thesis
  proof (cases "status coordinator (f_type_key f)")
    case None
    with assms(1,2) t td ne show ?thesis
      by (simp add: PhilipsFilterSensor_extra_state_attributes_def attrs_set_def filter_defs Let_def)
  next
    case (Some ty)
    with assms(1,2) t td ne show ?thesis
      by (simp add: PhilipsFilterSensor_extra_state_attributes_def attrs_set_def filter_defs Let_def)
  qed
next
  from assms(1) have ne:
    "ATTR_RAW c \<noteq> ATTR_TYPE c" "ATTR_TOTAL c \<noteq> ATTR_TYPE c"
    "ATTR_TIME_REMAINING c \<noteq> ATTR_TYPE c" "ATTR_TOTAL c \<noteq> ATTR_RAW c"
    "ATTR_TIME_REMAINING c \<noteq> ATTR_RAW c" "ATTR_TIME_REMAINING c \<noteq> ATTR_TOTAL c"
    by auto
  case False
  then have t: "status coordinator (f_total_key f) = None"
    by (simp add: contains_def)
  show ?thesis
  proof (cases "status coordinator (f_type_key f)")
    case None
    with assms(1,2) t ne show ?thesis
      by (simp add: PhilipsFilterSensor_extra_state_attributes_def attrs_set_def filter_defs Let_def)
  next
    case (Some ty)
    with assms(1,2) t ne show ?thesis
      by (simp add: PhilipsFilterSensor_extra_state_attributes_def attrs_set_def filter_defs Let_def)
  qed
qed


lemma example_attr_keys:
  "distinct [ATTR_TYPE example_const, ATTR_RAW example_const, ATTR_TOTAL example_const,
             ATTR_TIME_REMAINING example_const]"
  by (simp add: example_const_def)

lemma timedelta_48:
  "timedelta_of_hours 48 = Inr \<lparr>days = 2, seconds = 0, microseconds = 0\<rparr>"
  by (simp add: timedelta_of_hours_def)

lemma timedelta_40:
  "timedelta_of_hours 40 = Inr \<lparr>days = 1, seconds = 57600, microseconds = 0\<rparr>"
  by (simp add: timedelta_of_hours_def)

lemma timedelta_str_2_days:
  "timedelta_str \<lparr>days = 2, seconds = 0, microseconds = 0\<rparr> = ''2 days, 0:00:00''"
  by (simp add: timedelta_str_def zero_pad_def Let_def str_int_def str_nat.simps digit_char_def)

lemmas extra_defs = PhilipsFilterSensor_extra_state_attributes_def attrs_set_def filter_defs
  Let_def

text \<open>
  Claim C6 as stated fails: after one read under a snapshot with the type and total keys, a
  read under a snapshot without them still returns the type, total and time-remaining
  entries of the first read.
\<close>

theorem C6_counterexample:
  "PhilipsFilterSensor_extra_state_attributes example_const example_snapshot example_filter =
     (Inr (f_attrs example_filter_read), example_filter_read)
   \<and> status (example_status [(''preFilterStatus0'', PInt 40)]) (f_type_key example_filter_read) = None
   \<and> status (example_status [(''preFilterStatus0'', PInt 40)]) (f_total_key example_filter_read) = None
   \<and> fst (PhilipsFilterSensor_extra_state_attributes example_const
            (example_status [(''preFilterStatus0'', PInt 40)]) example_filter_read) =
       Inr ((f_attrs example_filter_read)(''raw'' \<mapsto> PInt 40))
   \<and> ((f_attrs example_filter_read)(''raw'' \<mapsto> PInt 40)) ''type'' = Some (PStr ''A3'')
   \<and> ((f_attrs example_filter_read)(''raw'' \<mapsto> PInt 40)) ''total'' = Some (PInt 96)
   \<and> ((f_attrs example_filter_read)(''raw'' \<mapsto> PInt 40)) ''time_remaining'' =
       Some (PStr ''2 days, 0:00:00'')"
proof -
  have first: "PhilipsFilterSensor_extra_state_attributes example_const example_snapshot
                 example_filter = (Inr (f_attrs example_filter_read), example_filter_read)"
    by (simp add: extra_defs example_const_def example_snapshot_def example_status_def
                  example_filter_def example_filter_read_def timedelta_48 timedelta_str_2_days)
  have second: "fst (PhilipsFilterSensor_extra_state_attributes example_const
            (example_status [(''preFilterStatus0'', PInt 40)]) example_filter_read) =
       Inr ((f_attrs example_filter_read)(''raw'' \<mapsto> PInt 40))"
    by (simp add: extra_defs example_const_def example_status_def
                  example_filter_def example_filter_read_def)
  show ?thesis
    unfolding first second
    by (simp add: example_status_def example_filter_def example_filter_read_def)
qed

theorem C6_witness:
  "\<exists>attrs attrs'.
     PhilipsFilterSensor_extra_state_attributes example_const example_snapshot example_filter =
       (Inr attrs, example_filter\<lparr>f_attrs := attrs\<rparr>)
     \<and> attrs ''raw'' = Some (PInt 48) \<and> attrs ''type'' = Some (PStr ''A3'')
     \<and> attrs ''total'' = Some (PInt 96)
     \<and> attrs ''time_remaining'' = Some (PStr ''2 days, 0:00:00'')
     \<and> PhilipsFilterSensor_extra_state_attributes example_const
         (example_status [(''preFilterStatus0'', PInt 40)]) example_filter_read =
       (Inr attrs', example_filter_read\<lparr>f_attrs := attrs'\<rparr>)
     \<and> attrs' ''raw'' = Some (PInt 40) \<and> attrs' ''type'' = Some (PStr ''A3'')
     \<and> attrs' ''total'' = Some (PInt 96)
     \<and> attrs' ''time_remaining'' = Some (PStr ''2 days, 0:00:00'')"
proof -
  let ?co = "example_status [(''preFilterStatus0'', PInt 40)]"
  have v1: "status example_snapshot (f_value_key example_filter) = Some (PInt 48)"
    by (simp add: example_snapshot_def example_status_def example_filter_def)
  have t1: "contains (status example_snapshot) (f_total_key example_filter) \<longrightarrow>
            timedelta_hours (PInt 48) = Inr \<lparr>days = 2, seconds = 0, microseconds = 0\<rparr>"
    by (simp add: timedelta_48)
  have v2: "status ?co (f_value_key example_filter_read) = Some (PInt 40)"
    by (simp add: example_status_def example_filter_def example_filter_read_def)
  have t2: "contains (status ?co) (f_total_key example_filter_read) \<longrightarrow>
            timedelta_hours (PInt 40) = Inr \<lparr>days = 1, seconds = 57600, microseconds = 0\<rparr>"
    by (simp add: timedelta_40)
  have keys: "ATTR_TYPE example_const = ''type''" "ATTR_RAW example_const = ''raw''"
    "ATTR_TOTAL example_const = ''total''" "ATTR_TIME_REMAINING example_const = ''time_remaining''"
    by (simp_all add: example_const_def)
  from C6_attributes_update_the_stored_dict [OF example_attr_keys v1 t1]
  obtain attrs where a:
    "PhilipsFilterSensor_extra_state_attributes example_const example_snapshot example_filter =
       (Inr attrs, example_filter\<lparr>f_attrs := attrs\<rparr>)"
    "attrs ''raw'' = Some (PInt 48)" "attrs ''type'' = Some (PStr ''A3'')"
    "attrs ''total'' = Some (PInt 96)"
    "attrs ''time_remaining'' = Some (PStr ''2 days, 0:00:00'')"
    unfolding keys
    by (auto simp: contains_def example_snapshot_def example_status_def example_filter_def
                   timedelta_str_2_days)
  from C6_attributes_update_the_stored_dict [OF example_attr_keys v2 t2]
  obtain attrs' where b:
    "PhilipsFilterSensor_extra_state_attributes example_const ?co example_filter_read =
       (Inr attrs', example_filter_read\<lparr>f_attrs := attrs'\<rparr>)"
    "attrs' ''raw'' = Some (PInt 40)" "attrs' ''type'' = Some (PStr ''A3'')"
    "attrs' ''total'' = Some (PInt 96)"
    "attrs' ''time_remaining'' = Some (PStr ''2 days, 0:00:00'')"
    unfolding keys
    by (auto simp: contains_def example_status_def example_filter_def example_filter_read_def)
  from a b show ?thesis by blast
qed

section \<open>Platform setup: which entities are constructed\<close>

lemma add_sensors_result:
  "add_sensors c co name model kinds acc = (lg, Inr out) \<Longrightarrow>
     \<exists>ss. out = acc @ map Sensor ss \<and> lg = [] \<and>
       list_all2 (\<lambda>kind s. PhilipsSensor_init c co name model kind = ([], Inr s))
         (filter (\<lambda>kind. truthy (dict_get (status co) kind)) kinds) ss"
proof (induction kinds arbitrary: acc lg)
  case Nil
  then show ?case by simp
next
  case (Cons kind rest)
  show ?case
  proof (cases "truthy (dict_get (status co) kind)")
    case False
    with Cons show ?thesis by simp
  next
    case True
    with Cons.prems obtain l1 s l2 where
      init: "PhilipsSensor_init c co name model kind = (l1, Inr s)" and
      rec: "add_sensors c co name model rest (acc @ [Sensor s]) = (l2, Inr out)" and
      lg: "lg = l1 @ l2"
      by (auto split: prod.splits sum.splits)
    from init have l1: "l1 = []" by (elim PhilipsSensor_init_Inr)
    from Cons.IH [OF rec] obtain ss where
      "out = (acc @ [Sensor s]) @ map Sensor ss" "l2 = []"
      "list_all2 (\<lambda>kind s. PhilipsSensor_init c co name model kind = ([], Inr s))
         (filter (\<lambda>kind. truthy (dict_get (status co) kind)) rest) ss"
      by blast
    with True init l1 lg show ?thesis
      by (intro exI [of _ "s # ss"]) simp
  qed
qed

lemma add_filters_result:
  "add_filters c co name model kinds acc = (lg, Inr out) \<Longrightarrow>
     \<exists>fs. out = acc @ map FilterSensor fs \<and> lg = [] \<and>
       list_all2 (\<lambda>kind f. PhilipsFilterSensor_init c co name model kind = ([], Inr f))
         (filter (\<lambda>kind. PhilipsFilterSensor_is_supported c (status co) kind = Inr True) kinds) fs"
proof (induction kinds arbitrary: acc lg)
  case Nil
  then show ?case by simp
next
  case (Cons kind rest)
  from Cons.prems obtain b where sup: "PhilipsFilterSensor_is_supported c (status co) kind = Inr b"
    by (cases "PhilipsFilterSensor_is_supported c (status co) kind") auto
  show ?case
  proof (cases b)
    case False
    with Cons sup show ?thesis by simp
  next
    case True
    with Cons.prems sup obtain l1 f l2 where
      init: "PhilipsFilterSensor_init c co name model kind = (l1, Inr f)" and
      rec: "add_filters c co name model rest (acc @ [FilterSensor f]) = (l2, Inr out)" and
      lg: "lg = l1 @ l2"
      by (auto split: prod.splits sum.splits)
    from init have l1: "l1 = []" by (elim PhilipsFilterSensor_init_Inr)
    from Cons.IH [OF rec] obtain fs where
      "out = (acc @ [FilterSensor f]) @ map FilterSensor fs" "l2 = []"
      "list_all2 (\<lambda>kind f. PhilipsFilterSensor_init c co name model kind = ([], Inr f))
         (filter (\<lambda>kind. PhilipsFilterSensor_is_supported c (status co) kind = Inr True) rest) fs"
      by blast
    with True sup init l1 lg show ?thesis
      by (intro exI [of _ "f # fs"]) simp
  qed
qed

lemma is_supported_declared:
  assumes "distinct (map fst (FILTER_TYPES c))" and "(kind, d) \<in> set (FILTER_TYPES c)"
  shows "PhilipsFilterSensor_is_supported c st kind =
           Inr (contains st (join_key d (PHILIPS_FILTER_STATUS c)))"
  using assms by (simp add: PhilipsFilterSensor_is_supported_def table_getitem_def)

lemma async_setup_platform_result:
  assumes "async_setup_platform c hass_data (Some info) = (lg, Inr (Some sensors))"
    and "hass_data (conf_host info) = Some co"
  shows "\<exists>ss fs. sensors = map Sensor ss @ map FilterSensor fs \<and>
       list_all2 (\<lambda>kind s. PhilipsSensor_init c co (conf_name info) (conf_model info) kind = ([], Inr s))
         (filter (\<lambda>kind. truthy (dict_get (status co) kind)) (map fst (SENSOR_TYPES c))) ss \<and>
       list_all2 (\<lambda>kind f. PhilipsFilterSensor_init c co (conf_name info) (conf_model info) kind = ([], Inr f))
         (filter (\<lambda>kind. PhilipsFilterSensor_is_supported c (status co) kind = Inr True)
            (map fst (FILTER_TYPES c))) fs"
proof -
  from assms obtain l1 mid l2 where
    a: "add_sensors c co (conf_name info) (conf_model info) (map fst (SENSOR_TYPES c)) [] = (l1, Inr mid)" and
    b: "add_filters c co (conf_name info) (conf_model info) (map fst (FILTER_TYPES c)) mid = (l2, Inr sensors)"
    by (auto simp: async_setup_platform_def split: prod.splits sum.splits)
  from add_sensors_result [OF a] add_filters_result [OF b] show ?thesis
    by auto
qed

lemma declared_sensor:
  assumes "kind \<in> set (map fst (SENSOR_TYPES c))"
  shows "\<exists>d. map_of (SENSOR_TYPES c) kind = Some d"
  using assms by (metis map_of_eq_None_iff not_Some_eq set_map)

lemma declared_filter:
  assumes "kind \<in> set (map fst (FILTER_TYPES c))"
  shows "\<exists>d. map_of (FILTER_TYPES c) kind = Some d"
  using assms by (metis map_of_eq_None_iff not_Some_eq set_map)

lemma PhilipsSensor_init_returns:
  assumes "status co (PHILIPS_DEVICE_ID c) = Some dev"
    and "py_format dev = Inr device_id_text"
    and "kind \<in> set (map fst (SENSOR_TYPES c))"
  shows "\<exists>s. PhilipsSensor_init c co name model kind = ([], Inr s)"
proof -
  from declared_sensor [OF assms(3)] obtain d where
    "map_of (SENSOR_TYPES c) kind = Some d" by (elim exE)
  with assms(1,2) show ?thesis
    by (simp add: PhilipsSensor_init_def table_getitem_def getitem_def device_status_def)
qed

lemma PhilipsFilterSensor_init_returns:
  assumes "status co (PHILIPS_DEVICE_ID c) = Some dev"
    and "py_format dev = Inr device_id_text"
    and "kind \<in> set (map fst (FILTER_TYPES c))"
  shows "\<exists>f. PhilipsFilterSensor_init c co name model kind = ([], Inr f)"
proof -
  from declared_filter [OF assms(3)] obtain d where
    "map_of (FILTER_TYPES c) kind = Some d" by (elim exE)
  with assms(1,2) show ?thesis
    by (simp add: PhilipsFilterSensor_init_def table_getitem_def getitem_def device_status_def
                  Let_def)
qed

lemma PhilipsSensor_init_not_ready:
  assumes "status co (PHILIPS_DEVICE_ID c) = None \<and> e = KeyError (PHILIPS_DEVICE_ID c) \<or>
           (\<exists>dev. status co (PHILIPS_DEVICE_ID c) = Some dev \<and> py_format dev = Inl e)"
    and "kind \<in> set (map fst (SENSOR_TYPES c))"
  shows "PhilipsSensor_init c co name model kind =
           ([LogError ''Failed retrieving unique_id: %s'' e], Inl PlatformNotReady)"
proof -
  from declared_sensor [OF assms(2)] obtain d where
    "map_of (SENSOR_TYPES c) kind = Some d" by (elim exE)
  with assms(1) show ?thesis
    by (auto simp: PhilipsSensor_init_def table_getitem_def getitem_def device_status_def)
qed

lemma PhilipsFilterSensor_init_not_ready:
  assumes "status co (PHILIPS_DEVICE_ID c) = None \<and> e = KeyError (PHILIPS_DEVICE_ID c) \<or>
           (\<exists>dev. status co (PHILIPS_DEVICE_ID c) = Some dev \<and> py_format dev = Inl e)"
    and "kind \<in> set (map fst (FILTER_TYPES c))"
  shows "PhilipsFilterSensor_init c co name model kind =
           ([LogError ''Failed retrieving unique_id: %s'' e], Inl PlatformNotReady)"
proof -
  from declared_filter [OF assms(2)] obtain d where
    "map_of (FILTER_TYPES c) kind = Some d" by (elim exE)
  with assms(1) show ?thesis
    by (auto simp: PhilipsFilterSensor_init_def table_getitem_def getitem_def device_status_def
                   Let_def)
qed

lemma is_supported_returns:
  assumes "kind \<in> set (map fst (FILTER_TYPES c))"
  shows "\<exists>b. PhilipsFilterSensor_is_supported c st kind = Inr b"
proof -
  from declared_filter [OF assms] obtain d where
    "map_of (FILTER_TYPES c) kind = Some d" by (elim exE)
  then show ?thesis
    by (simp add: PhilipsFilterSensor_is_supported_def table_getitem_def)
qed

lemma add_sensors_returns:
  assumes "status co (PHILIPS_DEVICE_ID c) = Some dev"
    and "py_format dev = Inr device_id_text"
    and "set kinds \<subseteq> set (map fst (SENSOR_TYPES c))"
  shows "\<exists>out. add_sensors c co name model kinds acc = ([], Inr out)"
  using assms(3)
proof (induction kinds arbitrary: acc)
  case Nil
  then show ?case by simp
next
  case (Cons kind rest)
  then have decl: "kind \<in> set (map fst (SENSOR_TYPES c))"
    and rest: "set rest \<subseteq> set (map fst (SENSOR_TYPES c))" by auto
  from PhilipsSensor_init_returns [OF assms(1,2) decl, of name model] obtain s where
    s: "PhilipsSensor_init c co name model kind = ([], Inr s)" by blast
  from Cons.IH [OF rest, of acc] obtain out1 where
    o1: "add_sensors c co name model rest acc = ([], Inr out1)" by blast
  from Cons.IH [OF rest, of "acc @ [Sensor s]"] obtain out2 where
    o2: "add_sensors c co name model rest (acc @ [Sensor s]) = ([], Inr out2)" by blast
  show ?case by (simp add: s o1 o2)
qed

lemma add_filters_returns:
  assumes "status co (PHILIPS_DEVICE_ID c) = Some dev"
    and "py_format dev = Inr device_id_text"
    and "set kinds \<subseteq> set (map fst (FILTER_TYPES c))"
  shows "\<exists>out. add_filters c co name model kinds acc = ([], Inr out)"
  using assms(3)
proof (induction kinds arbitrary: acc)
  case Nil
  then show ?case by simp
next
  case (Cons kind rest)
  then have decl: "kind \<in> set (map fst (FILTER_TYPES c))"
    and rest: "set rest \<subseteq> set (map fst (FILTER_TYPES c))" by auto
  from is_supported_returns [OF decl, of "status co"] obtain b where
    b: "PhilipsFilterSensor_is_supported c (status co) kind = Inr b" by blast
  from PhilipsFilterSensor_init_returns [OF assms(1,2) decl, of name model] obtain f where
    f: "PhilipsFilterSensor_init c co name model kind = ([], Inr f)" by blast
  from Cons.IH [OF rest, of acc] obtain out1 where
    o1: "add_filters c co name model rest acc = ([], Inr out1)" by blast
  from Cons.IH [OF rest, of "acc @ [FilterSensor f]"] obtain out2 where
    o2: "add_filters c co name model rest (acc @ [FilterSensor f]) = ([], Inr out2)" by blast
  show ?case by (cases b) (simp_all add: b f o1 o2)
qed

lemma async_setup_platform_returns:
  assumes "hass_data (conf_host info) = Some co"
    and "status co (PHILIPS_DEVICE_ID c) = Some dev"
    and "py_format dev = Inr device_id_text"
  shows "\<exists>sensors. async_setup_platform c hass_data (Some info) = ([], Inr (Some sensors))"
proof -
  from add_sensors_returns [OF assms(2,3) subset_refl] obtain mid where
    a: "add_sensors c co (conf_name info) (conf_model info) (map fst (SENSOR_TYPES c)) [] =
          ([], Inr mid)" by blast
  from add_filters_returns [OF assms(2,3) subset_refl] obtain out where
    b: "add_filters c co (conf_name info) (conf_model info) (map fst (FILTER_TYPES c)) mid =
          ([], Inr out)" by blast
  show ?thesis by (simp add: async_setup_platform_def assms(1) a b)
qed

lemma add_sensors_not_ready:
  assumes "status co (PHILIPS_DEVICE_ID c) = None \<and> e = KeyError (PHILIPS_DEVICE_ID c) \<or>
           (\<exists>dev. status co (PHILIPS_DEVICE_ID c) = Some dev \<and> py_format dev = Inl e)"
    and "set kinds \<subseteq> set (map fst (SENSOR_TYPES c))"
  shows "add_sensors c co name model kinds acc =
           (if \<exists>kind \<in> set kinds. truthy (dict_get (status co) kind)
            then ([LogError ''Failed retrieving unique_id: %s'' e], Inl PlatformNotReady)
            else ([], Inr acc))"
  using assms(2)
proof (induction kinds arbitrary: acc)
  case Nil
  then show ?case by simp
next
  case (Cons kind rest)
  then have decl: "kind \<in> set (map fst (SENSOR_TYPES c))"
    and rest: "set rest \<subseteq> set (map fst (SENSOR_TYPES c))" by auto
  note init = PhilipsSensor_init_not_ready [OF assms(1) decl, of name model]
  with Cons.IH [OF rest] show ?case by simp
qed

lemma add_filters_not_ready:
  assumes "status co (PHILIPS_DEVICE_ID c) = None \<and> e = KeyError (PHILIPS_DEVICE_ID c) \<or>
           (\<exists>dev. status co (PHILIPS_DEVICE_ID c) = Some dev \<and> py_format dev = Inl e)"
    and "set kinds \<subseteq> set (map fst (FILTER_TYPES c))"
  shows "add_filters c co name model kinds acc =
           (if \<exists>kind \<in> set kinds. PhilipsFilterSensor_is_supported c (status co) kind = Inr True
            then ([LogError ''Failed retrieving unique_id: %s'' e], Inl PlatformNotReady)
            else ([], Inr acc))"
  using assms(2)
proof (induction kinds arbitrary: acc)
  case Nil
  then show ?case by simp
next
  case (Cons kind rest)
  then have decl: "kind \<in> set (map fst (FILTER_TYPES c))"
    and rest: "set rest \<subseteq> set (map fst (FILTER_TYPES c))" by auto
  from is_supported_returns [OF decl, of "status co"] obtain b where
    b: "PhilipsFilterSensor_is_supported c (status co) kind = Inr b" by blast
  note init = PhilipsFilterSensor_init_not_ready [OF assms(1) decl, of name model]
  with Cons.IH [OF rest] b show ?case by (cases b) simp_all
qed

lemma async_setup_platform_not_ready:
  assumes "hass_data (conf_host info) = Some co"
    and "status co (PHILIPS_DEVICE_ID c) = None \<and> e = KeyError (PHILIPS_DEVICE_ID c) \<or>
         (\<exists>dev. status co (PHILIPS_DEVICE_ID c) = Some dev \<and> py_format dev = Inl e)"
  shows "async_setup_platform c hass_data (Some info) =
           (if (\<exists>kind \<in> set (map fst (SENSOR_TYPES c)). truthy (dict_get (status co) kind)) \<or>
               (\<exists>kind \<in> set (map fst (FILTER_TYPES c)).
                  PhilipsFilterSensor_is_supported c (status co) kind = Inr True)
            then ([LogError ''Failed retrieving unique_id: %s'' e], Inl PlatformNotReady)
            else ([], Inr (Some [])))"
  by (simp add: async_setup_platform_def assms(1)
                add_sensors_not_ready [OF assms(2) subset_refl]
                add_filters_not_ready [OF assms(2) subset_refl])

lemma supported_filter_declared:
  assumes "distinct (map fst (FILTER_TYPES c))"
  shows "(\<exists>kind \<in> set (map fst (FILTER_TYPES c)).
            PhilipsFilterSensor_is_supported c st kind = Inr True) =
         (\<exists>(kind, d) \<in> set (FILTER_TYPES c). contains st (join_key d (PHILIPS_FILTER_STATUS c)))"
proof
  assume "\<exists>kind \<in> set (map fst (FILTER_TYPES c)).
            PhilipsFilterSensor_is_supported c st kind = Inr True"
  then obtain kind d where decl: "(kind, d) \<in> set (FILTER_TYPES c)"
    and sup: "PhilipsFilterSensor_is_supported c st kind = Inr True"
    by auto
  from is_supported_declared [OF assms decl, of st] sup
  have "contains st (join_key d (PHILIPS_FILTER_STATUS c))" by simp
  with decl show "\<exists>(kind, d) \<in> set (FILTER_TYPES c).
                    contains st (join_key d (PHILIPS_FILTER_STATUS c))"
    by (intro bexI [of _ "(kind, d)"]) simp_all
next
  assume "\<exists>(kind, d) \<in> set (FILTER_TYPES c).
            contains st (join_key d (PHILIPS_FILTER_STATUS c))"
  then obtain kind d where decl: "(kind, d) \<in> set (FILTER_TYPES c)"
    and present: "contains st (join_key d (PHILIPS_FILTER_STATUS c))"
    by auto
  from is_supported_declared [OF assms decl, of st] present
  have "PhilipsFilterSensor_is_supported c st kind = Inr True" by simp
  moreover from decl have "kind \<in> set (map fst (FILTER_TYPES c))" by force
  ultimately show "\<exists>kind \<in> set (map fst (FILTER_TYPES c)).
                     PhilipsFilterSensor_is_supported c st kind = Inr True"
    by blast
qed

text \<open>
  Claim C4 as stated fails: the value key of the pre-filter is in the snapshot, so the
  filter type is supported, but the snapshot has no device id; the constructor raises
  PlatformNotReady, setup ends with that exception, and no Filter Sensor is constructed
  or registered.
\<close>

theorem C4_counterexample:
  "map_of (FILTER_TYPES example_const) ''pre_filter'' =
     Some \<lparr>attr_prefix = ''pre'', attr_postfix = ''0''\<rparr>
   \<and> join_key \<lparr>attr_prefix = ''pre'', attr_postfix = ''0''\<rparr> (PHILIPS_FILTER_STATUS example_const) =
       ''preFilterStatus0''
   \<and> contains
       (status (example_status [(''preFilterStatus0'', PInt 48), (''preFilterTotal0'', PInt 96)]))
       ''preFilterStatus0''
   \<and> PhilipsFilterSensor_is_supported example_const
       (status (example_status [(''preFilterStatus0'', PInt 48), (''preFilterTotal0'', PInt 96)]))
       ''pre_filter'' = Inr True
   \<and> PhilipsFilterSensor_init example_const
       (example_status [(''preFilterStatus0'', PInt 48), (''preFilterTotal0'', PInt 96)])
       ''Purifier'' ''AC1234'' ''pre_filter'' =
       ([LogError ''Failed retrieving unique_id: %s'' (KeyError ''DeviceId'')],
        Inl PlatformNotReady)
   \<and> async_setup_platform example_const
       [''host'' \<mapsto>
          example_status [(''preFilterStatus0'', PInt 48), (''preFilterTotal0'', PInt 96)]]
       (Some example_info) =
       ([LogError ''Failed retrieving unique_id: %s'' (KeyError ''DeviceId'')],
        Inl PlatformNotReady)"
  by (simp add: async_setup_platform_def PhilipsSensor_init_def PhilipsFilterSensor_init_def
                PhilipsFilterSensor_is_supported_def PhilipsFilterSensor_has_total_def
                table_getitem_def getitem_def dict_get_def contains_def device_status_def
                join_key_def Let_def example_defs example_info_def)

text \<open>
  Claim C4, amended. \<^verbatim>\<open>FILTER_TYPES\<close> is a dict, so its keys are distinct. For every
  declared filter type \<^verbatim>\<open>is_supported\<close> is whether the derived value key (prefix, the
  filter-status constant, postfix) is a key of the snapshot. When the device id is in the
  snapshot and has a text, setup returns, and the Filter Sensors it registers are, in
  order, the constructions of exactly the declared filter types whose value key is in the
  snapshot. When the device id is missing from the snapshot, or is an integer too long to
  be formatted, setup registers the empty list if no declared sensor has a truthy entry
  and no declared filter type has its value key in the snapshot; otherwise the first
  construction logs the error and raises PlatformNotReady, which ends setup with nothing
  registered.
\<close>

theorem C4_filter_sensors_registered_or_not_ready:
  assumes "distinct (map fst (FILTER_TYPES c))"
    and "hass_data (conf_host info) = Some co"
  shows "(\<forall>(kind, d) \<in> set (FILTER_TYPES c).
            PhilipsFilterSensor_is_supported c (status co) kind =
              Inr (contains (status co) (join_key d (PHILIPS_FILTER_STATUS c))))
       \<and> (\<forall>device_id device_id_text.
            status co (PHILIPS_DEVICE_ID c) = Some device_id \<and>
            py_format device_id = Inr device_id_text \<longrightarrow>
            (\<exists>ss fs.
               async_setup_platform c hass_data (Some info) =
                 ([], Inr (Some (map Sensor ss @ map FilterSensor fs))) \<and>
               list_all2
                 (\<lambda>(kind, d) f.
                    PhilipsFilterSensor_init c co (conf_name info) (conf_model info) kind =
                      ([], Inr f))
                 (filter (\<lambda>(kind, d). contains (status co) (join_key d (PHILIPS_FILTER_STATUS c)))
                    (FILTER_TYPES c))
                 fs))
       \<and> (\<forall>e.
            status co (PHILIPS_DEVICE_ID c) = None \<and> e = KeyError (PHILIPS_DEVICE_ID c) \<or>
            (\<exists>device_id. status co (PHILIPS_DEVICE_ID c) = Some device_id \<and>
                          py_format device_id = Inl e) \<longrightarrow>
            async_setup_platform c hass_data (Some info) =
              (if (\<exists>kind \<in> set (map fst (SENSOR_TYPES c)). truthy (dict_get (status co) kind)) \<or>
                  (\<exists>(kind, d) \<in> set (FILTER_TYPES c).
                     contains (status co) (join_key d (PHILIPS_FILTER_STATUS c)))
               then ([LogError ''Failed retrieving unique_id: %s'' e], Inl PlatformNotReady)
               else ([], Inr (Some []))))"
proof (intro conjI allI impI)
  show sup: "\<forall>(kind, d) \<in> set (FILTER_TYPES c).
            PhilipsFilterSensor_is_supported c (status co) kind =
              Inr (contains (status co) (join_key d (PHILIPS_FILTER_STATUS c)))"
    using is_supported_declared [OF assms(1)] by blast
  {
    fix device_id device_id_text
    assume "status co (PHILIPS_DEVICE_ID c) = Some device_id \<and>
            py_format device_id = Inr device_id_text"
    then have dev: "status co (PHILIPS_DEVICE_ID c) = Some device_id"
      and fmt: "py_format device_id = Inr device_id_text" by simp_all
    from async_setup_platform_returns
           [where hass_data = hass_data and info = info, OF assms(2) dev fmt]
    obtain sensors where
      run: "async_setup_platform c hass_data (Some info) = ([], Inr (Some sensors))"
      by (elim exE)
    from async_setup_platform_result [OF run assms(2)] obtain ss fs where
      eq: "sensors = map Sensor ss @ map FilterSensor fs" and
      all: "list_all2
         (\<lambda>kind f. PhilipsFilterSensor_init c co (conf_name info) (conf_model info) kind =
                     ([], Inr f))
         (filter (\<lambda>kind. PhilipsFilterSensor_is_supported c (status co) kind = Inr True)
            (map fst (FILTER_TYPES c))) fs"
      by blast
    have "filter (\<lambda>kind. PhilipsFilterSensor_is_supported c (status co) kind = Inr True)
            (map fst (FILTER_TYPES c)) =
          map fst (filter (\<lambda>(kind, d). contains (status co) (join_key d (PHILIPS_FILTER_STATUS c)))
            (FILTER_TYPES c))"
      unfolding filter_map
      by (rule arg_cong [where f = "map fst"], rule filter_cong) (use sup in auto)
    with all have "list_all2
         (\<lambda>(kind, d) f.
            PhilipsFilterSensor_init c co (conf_name info) (conf_model info) kind = ([], Inr f))
         (filter (\<lambda>(kind, d). contains (status co) (join_key d (PHILIPS_FILTER_STATUS c)))
            (FILTER_TYPES c)) fs"
      by (simp add: list_all2_map1 case_prod_unfold)
    with run eq show "\<exists>ss fs.
              async_setup_platform c hass_data (Some info) =
                ([], Inr (Some (map Sensor ss @ map FilterSensor fs))) \<and>
              list_all2
                (\<lambda>(kind, d) f.
                   PhilipsFilterSensor_init c co (conf_name info) (conf_model info) kind =
                     ([], Inr f))
                (filter (\<lambda>(kind, d). contains (status co) (join_key d (PHILIPS_FILTER_STATUS c)))
                   (FILTER_TYPES c))
                fs"
      by blast
  }
  {
    fix e
    assume fails:
      "status co (PHILIPS_DEVICE_ID c) = None \<and> e = KeyError (PHILIPS_DEVICE_ID c) \<or>
       (\<exists>device_id. status co (PHILIPS_DEVICE_ID c) = Some device_id \<and>
                     py_format device_id = Inl e)"
    show "async_setup_platform c hass_data (Some info) =
              (if (\<exists>kind \<in> set (map fst (SENSOR_TYPES c)). truthy (dict_get (status co) kind)) \<or>
                  (\<exists>(kind, d) \<in> set (FILTER_TYPES c).
                     contains (status co) (join_key d (PHILIPS_FILTER_STATUS c)))
               then ([LogError ''Failed retrieving unique_id: %s'' e], Inl PlatformNotReady)
               else ([], Inr (Some [])))"
      unfolding async_setup_platform_not_ready
                  [where hass_data = hass_data and info = info, OF assms(2) fails]
                supported_filter_declared [OF assms(1)]
      by (rule refl)
  }
qed

lemmas setup_defs = async_setup_platform_def PhilipsSensor_init_def PhilipsFilterSensor_init_def
  PhilipsFilterSensor_is_supported_def PhilipsFilterSensor_has_total_def table_getitem_def
  getitem_def dict_get_def contains_def device_status_def join_key_def Let_def

theorem C4_witness:
  "(\<exists>ss. async_setup_platform example_const [''host'' \<mapsto> example_snapshot] (Some example_info) =
          ([], Inr (Some (map Sensor ss @ [FilterSensor example_filter])))
      \<and> contains (status example_snapshot) ''preFilterStatus0''
      \<and> \<not> contains (status example_snapshot) ''hepaFilterStatus1'')
   \<and> async_setup_platform example_const
       [''host'' \<mapsto> example_status [(''hepaFilterStatus1'', PInt 9)]] (Some example_info) =
       ([LogError ''Failed retrieving unique_id: %s'' (KeyError ''DeviceId'')],
        Inl PlatformNotReady)
   \<and> async_setup_platform example_const
       [''host'' \<mapsto> example_status [(''preFilterTotal0'', PInt 96)]] (Some example_info) =
       ([], Inr (Some []))"
proof -
  let ?hass = "[''host'' \<mapsto> example_snapshot]"
  let ?co1 = "example_status [(''hepaFilterStatus1'', PInt 9)]"
  let ?co2 = "example_status [(''preFilterTotal0'', PInt 96)]"
  have d: "distinct (map fst (FILTER_TYPES example_const))"
    by (simp add: example_const_def)
  have h: "?hass (conf_host example_info) = Some example_snapshot"
          "[''host'' \<mapsto> ?co1] (conf_host example_info) = Some ?co1"
          "[''host'' \<mapsto> ?co2] (conf_host example_info) = Some ?co2"
    by (simp_all add: example_info_def)
  have dev: "status example_snapshot (PHILIPS_DEVICE_ID example_const) = Some (PStr ''XYZ'') \<and>
             py_format (PStr ''XYZ'') = Inr ''XYZ''"
    by (simp add: example_defs example_snapshot_def py_format_def)
  have sel: "filter (\<lambda>(kind, d). contains (status example_snapshot)
                 (join_key d (PHILIPS_FILTER_STATUS example_const))) (FILTER_TYPES example_const) =
             [(''pre_filter'', \<lparr>attr_prefix = ''pre'', attr_postfix = ''0''\<rparr>)]"
    by (simp add: example_defs example_snapshot_def contains_def join_key_def)
  from C4_filter_sensors_registered_or_not_ready
         [where hass_data = ?hass and info = example_info, OF d h(1),
          THEN conjunct2, THEN conjunct1, rule_format, OF dev]
  obtain ss fs where
    run: "async_setup_platform example_const ?hass (Some example_info) =
            ([], Inr (Some (map Sensor ss @ map FilterSensor fs)))" and
    "list_all2 (\<lambda>(kind, d) f. PhilipsFilterSensor_init example_const example_snapshot
                   (conf_name example_info) (conf_model example_info) kind = ([], Inr f))
       [(''pre_filter'', \<lparr>attr_prefix = ''pre'', attr_postfix = ''0''\<rparr>)] fs"
    unfolding sel by blast
  then have "fs = [example_filter]"
    by (auto simp: list_all2_Cons1 example_info_def example_filter_init)
  with run have first:
    "\<exists>ss. async_setup_platform example_const ?hass (Some example_info) =
          ([], Inr (Some (map Sensor ss @ [FilterSensor example_filter])))
      \<and> contains (status example_snapshot) ''preFilterStatus0''
      \<and> \<not> contains (status example_snapshot) ''hepaFilterStatus1''"
    by (auto simp: contains_def example_snapshot_def example_status_def)
  have absent:
    "status ?co1 (PHILIPS_DEVICE_ID example_const) = None \<and>
       KeyError ''DeviceId'' = KeyError (PHILIPS_DEVICE_ID example_const) \<or>
     (\<exists>device_id. status ?co1 (PHILIPS_DEVICE_ID example_const) = Some device_id \<and>
                   py_format device_id = Inl (KeyError ''DeviceId''))"
    "status ?co2 (PHILIPS_DEVICE_ID example_const) = None \<and>
       KeyError ''DeviceId'' = KeyError (PHILIPS_DEVICE_ID example_const) \<or>
     (\<exists>device_id. status ?co2 (PHILIPS_DEVICE_ID example_const) = Some device_id \<and>
                   py_format device_id = Inl (KeyError ''DeviceId''))"
    by (simp_all add: example_defs)
  have second:
    "async_setup_platform example_const [''host'' \<mapsto> ?co1] (Some example_info) =
       ([LogError ''Failed retrieving unique_id: %s'' (KeyError ''DeviceId'')],
        Inl PlatformNotReady)"
    using C4_filter_sensors_registered_or_not_ready
            [where hass_data = "[''host'' \<mapsto> ?co1]" and info = example_info, OF d h(2),
             THEN conjunct2, THEN conjunct2, rule_format, OF absent(1)]
    by (simp add: example_defs dict_get_def contains_def join_key_def)
  have third:
    "async_setup_platform example_const [''host'' \<mapsto> ?co2] (Some example_info) =
       ([], Inr (Some []))"
    using C4_filter_sensors_registered_or_not_ready
            [where hass_data = "[''host'' \<mapsto> ?co2]" and info = example_info, OF d h(3),
             THEN conjunct2, THEN conjunct2, rule_format, OF absent(2)]
    by (simp add: example_defs dict_get_def contains_def join_key_def)
  from first second third show ?thesis by blast
qed

text \<open>
  Claim C3. The claim asks for a Simple Sensor for every declared identifier that is a key
  of the snapshot. The loop tests \<^verbatim>\<open>coordinator.status.get(sensor)\<close> for truth
  instead, where the filter loop tests membership: on the snapshot with
  \<^verbatim>\<open>pm25\<close> present and equal to 0 (and the device id present), setup registers no
  entity at all.
\<close>

theorem C3_setup_skips_present_key_with_falsy_entry:
  "status (example_status [(''DeviceId'', PStr ''XYZ''), (''pm25'', PInt 0)]) ''pm25'' =
     Some (PInt 0)
   \<and> ''pm25'' \<in> set (map fst (SENSOR_TYPES example_const))
   \<and> async_setup_platform example_const
        [''host'' \<mapsto> example_status [(''DeviceId'', PStr ''XYZ''), (''pm25'', PInt 0)]]
        (Some example_info) = ([], Inr (Some []))"
  by (simp add: setup_defs example_defs example_info_def)

text \<open>
  What the first loop does: with the device id in the snapshot, and a text for it, setup
  returns, and the Simple Sensors it registers are, in order, the constructions of exactly
  the declared identifiers whose \<^verbatim>\<open>status.get(identifier)\<close> is truthy.
\<close>

theorem setup_simple_sensors_iff_truthy_entry:
  assumes "hass_data (conf_host info) = Some co"
    and "status co (PHILIPS_DEVICE_ID c) = Some device_id"
    and "py_format device_id = Inr device_id_text"
  shows "\<exists>ss fs.
           async_setup_platform c hass_data (Some info) =
             ([], Inr (Some (map Sensor ss @ map FilterSensor fs))) \<and>
           list_all2
             (\<lambda>kind s.
                PhilipsSensor_init c co (conf_name info) (conf_model info) kind = ([], Inr s))
             (filter (\<lambda>kind. truthy (dict_get (status co) kind)) (map fst (SENSOR_TYPES c)))
             ss"
proof -
  from async_setup_platform_returns [where hass_data = hass_data and info = info, OF assms]
  obtain sensors where
    run: "async_setup_platform c hass_data (Some info) = ([], Inr (Some sensors))"
    by (elim exE)
  from async_setup_platform_result [OF run assms(1)] run show ?thesis by blast
qed

theorem setup_simple_sensors_example:
  "\<exists>s fs. async_setup_platform example_const [''host'' \<mapsto> example_snapshot] (Some example_info) =
          ([], Inr (Some (Sensor s # map FilterSensor fs)))
      \<and> PhilipsSensor_init example_const example_snapshot ''Purifier'' ''AC1234'' ''pm25'' =
          ([], Inr s)
      \<and> dict_get (status example_snapshot) ''pm25'' = PInt 7
      \<and> dict_get (status example_snapshot) ''IAQL'' = PNone"
proof -
  let ?hass = "[''host'' \<mapsto> example_snapshot]"
  have h: "?hass (conf_host example_info) = Some example_snapshot"
    by (simp add: example_info_def)
  have dev: "status example_snapshot (PHILIPS_DEVICE_ID example_const) = Some (PStr ''XYZ'')"
    by (simp add: example_defs example_snapshot_def)
  have fmt: "py_format (PStr ''XYZ'') = Inr ''XYZ''"
    by (simp add: py_format_def)
  have sel: "filter (\<lambda>kind. truthy (dict_get (status example_snapshot) kind))
               (map fst (SENSOR_TYPES example_const)) = [''pm25'']"
    by (simp add: example_defs example_snapshot_def dict_get_def)
  from setup_simple_sensors_iff_truthy_entry
         [where hass_data = ?hass and info = example_info, OF h dev fmt]
  obtain ss fs where
    run: "async_setup_platform example_const ?hass (Some example_info) =
            ([], Inr (Some (map Sensor ss @ map FilterSensor fs)))" and
    "list_all2 (\<lambda>kind s. PhilipsSensor_init example_const example_snapshot
                   (conf_name example_info) (conf_model example_info) kind = ([], Inr s))
       [''pm25''] ss"
    unfolding sel by blast
  then obtain s where "ss = [s]"
    "PhilipsSensor_init example_const example_snapshot ''Purifier'' ''AC1234'' ''pm25'' = ([], Inr s)"
    by (auto simp: list_all2_Cons1 example_info_def)
  with run show ?thesis
    by (auto simp: dict_get_def example_snapshot_def example_status_def)
qed

text \<open>
  Without the device id in the snapshot, setup raises PlatformNotReady (after logging the
  KeyError) as soon as one declared sensor has a truthy entry or one declared filter type
  is supported, and otherwise registers the empty list.
\<close>

theorem setup_without_device_id:
  assumes "hass_data (conf_host info) = Some co"
    and "status co (PHILIPS_DEVICE_ID c) = None"
  shows "async_setup_platform c hass_data (Some info) =
           (if (\<exists>kind \<in> set (map fst (SENSOR_TYPES c)). truthy (dict_get (status co) kind)) \<or>
               (\<exists>kind \<in> set (map fst (FILTER_TYPES c)).
                  PhilipsFilterSensor_is_supported c (status co) kind = Inr True)
            then ([LogError ''Failed retrieving unique_id: %s'' (KeyError (PHILIPS_DEVICE_ID c))],
                  Inl PlatformNotReady)
            else ([], Inr (Some [])))"
  using async_setup_platform_not_ready
          [where hass_data = hass_data and info = info and e = "KeyError (PHILIPS_DEVICE_ID c)",
           OF assms(1)] assms(2)
  by simp

theorem setup_without_device_id_example:
  "async_setup_platform example_const
     [''host'' \<mapsto> example_status [(''pm25'', PInt 7)]] (Some example_info) =
     ([LogError ''Failed retrieving unique_id: %s'' (KeyError ''DeviceId'')], Inl PlatformNotReady)
   \<and> async_setup_platform example_const
     [''host'' \<mapsto> example_status [(''preFilterTotal0'', PInt 96)]] (Some example_info) =
     ([], Inr (Some []))"
proof -
  let ?co = "example_status [(''pm25'', PInt 7)]"
  let ?co' = "example_status [(''preFilterTotal0'', PInt 96)]"
  have h: "[''host'' \<mapsto> ?co] (conf_host example_info) = Some ?co"
          "[''host'' \<mapsto> ?co'] (conf_host example_info) = Some ?co'"
    by (simp_all add: example_info_def)
  have a: "status ?co (PHILIPS_DEVICE_ID example_const) = None"
          "status ?co' (PHILIPS_DEVICE_ID example_const) = None"
    by (simp_all add: example_defs)
  show ?thesis
    using setup_without_device_id
            [where hass_data = "[''host'' \<mapsto> ?co]" and info = example_info, OF h(1) a(1)]
          setup_without_device_id
            [where hass_data = "[''host'' \<mapsto> ?co']" and info = example_info, OF h(2) a(2)]
    by (simp add: example_defs dict_get_def PhilipsFilterSensor_is_supported_def
                  table_getitem_def contains_def join_key_def)
qed

text \<open>
  Display names: the device name, a space, and the label (Simple Sensor) or the filter
  type (Filter Sensor) with underscores replaced by spaces and title-cased.
\<close>

theorem display_names:
  "(PhilipsSensor_init c coordinator name model kind = (lg, Inr s) \<and>
    map_of (SENSOR_TYPES c) kind = Some d \<longrightarrow>
      s_attr_name s = name @ '' '' @ title (replace_underscore (attr_label d))) \<and>
   (PhilipsFilterSensor_init c coordinator name model fkind = (lg', Inr f) \<longrightarrow>
      f_attr_name f = name @ '' '' @ title (replace_underscore fkind))"
  by (auto simp: PhilipsSensor_init_def PhilipsFilterSensor_init_def table_getitem_def
                 getitem_def device_status_def Let_def
           split: option.splits sum.splits)

theorem display_names_example:
  "PhilipsFilterSensor_init example_const example_snapshot ''Purifier'' ''AC1234'' ''pre_filter'' =
     ([], Inr example_filter)
   \<and> f_attr_name example_filter = ''Purifier Pre Filter''
   \<and> title (replace_underscore ''pre_filter'') = ''Pre Filter''"
proof -
  have t: "title (replace_underscore ''pre_filter'') = ''Pre Filter''"
    by (simp add: case_defs)
  from display_names [THEN conjunct2, rule_format, OF example_filter_init]
  have "f_attr_name example_filter = ''Purifier '' @ title (replace_underscore ''pre_filter'')"
    by simp
  with t example_filter_init show ?thesis by simp
qed

text \<open>Without a discovery context nothing is registered.\<close>

theorem no_discovery_info_registers_nothing:
  "async_setup_platform c hass_data None = ([], Inr None)"
  by (simp add: async_setup_platform_def)

end
